theory Spec2Isabelle
  imports Main
begin

section \<open>The schema of the first migration\<close>

text \<open>
  The tables of \<^verbatim>\<open>supabase/migrations/20260210140845_*.sql\<close>. A table is the list of
  its rows, a row a record of its columns. The columns that only carry a timestamp or
  a free text no rule reads (\<^verbatim>\<open>created_at\<close>, \<^verbatim>\<open>updated_at\<close>, \<^verbatim>\<open>description\<close>,
  \<^verbatim>\<open>due_date\<close>, \<^verbatim>\<open>file_url\<close>, ...) are left out. A nullable column is an option.
  The field prefixes are the aliases the policies use (\<^verbatim>\<open>e\<close>, \<^verbatim>\<open>fs\<close>, \<^verbatim>\<open>es\<close>);
  the row type of \<^verbatim>\<open>experiments\<close> is \<open>experiment_row\<close>, \<open>experiment\<close> being a keyword.
\<close>

type_synonym uuid = string

datatype app_role = Admin | Faculty | Student

record profile =
  p_id :: uuid
  p_full_name :: "string option"
  p_role :: app_role
  p_department :: "string option"

record subject =
  s_id :: uuid
  s_name :: string
  s_code :: "string option"
  s_department :: "string option"

record experiment_row =
  e_id :: uuid
  e_subject_id :: uuid
  e_title :: string

record student_subject =
  ss_id :: uuid
  ss_student_id :: uuid
  ss_subject_id :: uuid

record faculty_subject =
  fs_id :: uuid
  fs_faculty_id :: uuid
  fs_subject_id :: uuid

record experiment_submission =
  es_id :: uuid
  es_experiment_id :: uuid
  es_student_id :: uuid
  es_code :: "string option"
  es_language :: "string option"
  es_status :: string

record evaluation =
  ev_id :: uuid
  ev_submission_id :: uuid
  ev_faculty_id :: uuid
  ev_marks :: "int option"
  ev_feedback :: "string option"

text \<open>\<^verbatim>\<open>users\<close> is \<^verbatim>\<open>auth.users\<close>, of which the schema only references the \<^verbatim>\<open>id\<close>.\<close>

record db =
  users :: "uuid list"
  profiles :: "profile list"
  subjects :: "subject list"
  experiments :: "experiment_row list"
  student_subjects :: "student_subject list"
  faculty_subjects :: "faculty_subject list"
  experiment_submissions :: "experiment_submission list"
  evaluations :: "evaluation list"

definition empty_db :: db where
  "empty_db = \<lparr>users = [], profiles = [], subjects = [], experiments = [],
     student_subjects = [], faculty_subjects = [], experiment_submissions = [],
     evaluations = []\<rparr>"

subsection \<open>Column constraints\<close>

text \<open>\<^verbatim>\<open>CHECK (department IN ('CSE', 'IT', 'AIDS'))\<close>; a NULL passes a CHECK.\<close>

definition department_check :: "string option \<Rightarrow> bool" where
  "department_check d =
     (case d of None \<Rightarrow> True | Some x \<Rightarrow> x = ''CSE'' \<or> x = ''IT'' \<or> x = ''AIDS'')"

text \<open>\<^verbatim>\<open>CHECK (status IN ('draft', 'submitted', 'evaluated'))\<close> on a NOT NULL column.\<close>

definition status_check :: "string \<Rightarrow> bool" where
  "status_check s = (s = ''draft'' \<or> s = ''submitted'' \<or> s = ''evaluated'')"

text \<open>\<^verbatim>\<open>marks INT CHECK (marks >= 0 AND marks <= 100)\<close>.\<close>

definition marks_check :: "int option \<Rightarrow> bool" where
  "marks_check m = (case m of None \<Rightarrow> True | Some x \<Rightarrow> x \<ge> 0 \<and> x \<le> 100)"

text \<open>The cast \<^verbatim>\<open>::app_role\<close> of a text: the three labels, anything else is an error.\<close>

definition app_role_of_text :: "string \<Rightarrow> app_role option" where
  "app_role_of_text t =
     (if t = ''admin'' then Some Admin
      else if t = ''faculty'' then Some Faculty
      else if t = ''student'' then Some Student
      else None)"

subsection \<open>Helper functions of the policies\<close>

text \<open>
  The three \<^verbatim>\<open>SECURITY DEFINER\<close> functions read their table whole, whatever the caller
  may see. \<open>uid\<close> is \<^verbatim>\<open>auth.uid()\<close>, the caller.
\<close>

definition is_admin :: "db \<Rightarrow> uuid \<Rightarrow> bool" where
  "is_admin d uid = (\<exists>p \<in> set (profiles d). p_id p = uid \<and> p_role p = Admin)"

definition is_faculty_for_subject :: "db \<Rightarrow> uuid \<Rightarrow> uuid \<Rightarrow> bool" where
  "is_faculty_for_subject d uid subject_id =
     (\<exists>fs \<in> set (faculty_subjects d). fs_faculty_id fs = uid \<and> fs_subject_id fs = subject_id)"

definition is_student_for_subject :: "db \<Rightarrow> uuid \<Rightarrow> uuid \<Rightarrow> bool" where
  "is_student_for_subject d uid subject_id =
     (\<exists>ss \<in> set (student_subjects d). ss_student_id ss = uid \<and> ss_subject_id ss = subject_id)"

section \<open>Row-level policies\<close>

text \<open>
  One definition per \<^verbatim>\<open>CREATE POLICY\<close>, under the policy's name: the \<^verbatim>\<open>USING\<close> or
  \<^verbatim>\<open>WITH CHECK\<close> expression as a predicate of the database, the caller and the row.
  All policies are \<^verbatim>\<open>TO authenticated\<close>: the caller always has a \<open>uid\<close>.
  The policies \<^verbatim>\<open>experiments_update\<close> and \<^verbatim>\<open>evaluations_update\<close> carry the suffix
  \<open>_policy\<close>, their names being those of the update functions of the record \<open>db\<close>.
\<close>

definition profiles_select :: "db \<Rightarrow> uuid \<Rightarrow> profile \<Rightarrow> bool" where
  "profiles_select d uid p = True"

definition profiles_update_own :: "db \<Rightarrow> uuid \<Rightarrow> profile \<Rightarrow> bool" where
  "profiles_update_own d uid p = (p_id p = uid \<or> is_admin d uid)"

definition subjects_select :: "db \<Rightarrow> uuid \<Rightarrow> subject \<Rightarrow> bool" where
  "subjects_select d uid s = True"

definition subjects_insert_admin :: "db \<Rightarrow> uuid \<Rightarrow> subject \<Rightarrow> bool" where
  "subjects_insert_admin d uid s = is_admin d uid"

definition subjects_update_admin :: "db \<Rightarrow> uuid \<Rightarrow> subject \<Rightarrow> bool" where
  "subjects_update_admin d uid s = is_admin d uid"

definition subjects_delete_admin :: "db \<Rightarrow> uuid \<Rightarrow> subject \<Rightarrow> bool" where
  "subjects_delete_admin d uid s = is_admin d uid"

definition experiments_select :: "db \<Rightarrow> uuid \<Rightarrow> experiment_row \<Rightarrow> bool" where
  "experiments_select d uid e = True"

definition experiments_insert :: "db \<Rightarrow> uuid \<Rightarrow> experiment_row \<Rightarrow> bool" where
  "experiments_insert d uid e = (is_admin d uid \<or> is_faculty_for_subject d uid (e_subject_id e))"

definition experiments_update_policy :: "db \<Rightarrow> uuid \<Rightarrow> experiment_row \<Rightarrow> bool" where
  "experiments_update_policy d uid e = (is_admin d uid \<or> is_faculty_for_subject d uid (e_subject_id e))"

definition experiments_delete :: "db \<Rightarrow> uuid \<Rightarrow> experiment_row \<Rightarrow> bool" where
  "experiments_delete d uid e = is_admin d uid"

definition student_subjects_select :: "db \<Rightarrow> uuid \<Rightarrow> student_subject \<Rightarrow> bool" where
  "student_subjects_select d uid ss =
     (is_admin d uid \<or> ss_student_id ss = uid \<or> is_faculty_for_subject d uid (ss_subject_id ss))"

text \<open>The first migration's \<^verbatim>\<open>student_subjects_insert\<close>, which the second one drops.\<close>

definition student_subjects_insert_original :: "db \<Rightarrow> uuid \<Rightarrow> student_subject \<Rightarrow> bool" where
  "student_subjects_insert_original d uid ss = is_admin d uid"

text \<open>The \<^verbatim>\<open>student_subjects_insert\<close> of \<^verbatim>\<open>20260217173141_*.sql\<close>.\<close>

definition student_subjects_insert :: "db \<Rightarrow> uuid \<Rightarrow> student_subject \<Rightarrow> bool" where
  "student_subjects_insert d uid ss = (ss_student_id ss = uid \<or> is_admin d uid)"

definition student_subjects_delete :: "db \<Rightarrow> uuid \<Rightarrow> student_subject \<Rightarrow> bool" where
  "student_subjects_delete d uid ss = is_admin d uid"

definition faculty_subjects_select :: "db \<Rightarrow> uuid \<Rightarrow> faculty_subject \<Rightarrow> bool" where
  "faculty_subjects_select d uid fs = (is_admin d uid \<or> fs_faculty_id fs = uid)"

definition faculty_subjects_insert :: "db \<Rightarrow> uuid \<Rightarrow> faculty_subject \<Rightarrow> bool" where
  "faculty_subjects_insert d uid fs = is_admin d uid"

definition faculty_subjects_delete :: "db \<Rightarrow> uuid \<Rightarrow> faculty_subject \<Rightarrow> bool" where
  "faculty_subjects_delete d uid fs = is_admin d uid"

text \<open>
  A sub-select inside a policy is not \<^verbatim>\<open>SECURITY DEFINER\<close>: it runs as the caller, and
  reads of each table only the rows the caller may select. \<open>rls_experiments\<close> and
  \<open>rls_faculty_subjects\<close> are those rows.
\<close>

definition rls_experiments :: "db \<Rightarrow> uuid \<Rightarrow> experiment_row list" where
  "rls_experiments d uid = filter (experiments_select d uid) (experiments d)"

definition rls_faculty_subjects :: "db \<Rightarrow> uuid \<Rightarrow> faculty_subject list" where
  "rls_faculty_subjects d uid = filter (faculty_subjects_select d uid) (faculty_subjects d)"

definition submissions_select :: "db \<Rightarrow> uuid \<Rightarrow> experiment_submission \<Rightarrow> bool" where
  "submissions_select d uid r =
     (is_admin d uid \<or> es_student_id r = uid \<or>
      (\<exists>e \<in> set (rls_experiments d uid). \<exists>fs \<in> set (rls_faculty_subjects d uid).
         e_subject_id e = fs_subject_id fs \<and> e_id e = es_experiment_id r \<and> fs_faculty_id fs = uid))"

definition submissions_insert :: "db \<Rightarrow> uuid \<Rightarrow> experiment_submission \<Rightarrow> bool" where
  "submissions_insert d uid r = (es_student_id r = uid)"

definition submissions_update :: "db \<Rightarrow> uuid \<Rightarrow> experiment_submission \<Rightarrow> bool" where
  "submissions_update d uid r = (is_admin d uid \<or> es_student_id r = uid)"

definition rls_experiment_submissions :: "db \<Rightarrow> uuid \<Rightarrow> experiment_submission list" where
  "rls_experiment_submissions d uid = filter (submissions_select d uid) (experiment_submissions d)"

definition evaluations_select :: "db \<Rightarrow> uuid \<Rightarrow> evaluation \<Rightarrow> bool" where
  "evaluations_select d uid r =
     (is_admin d uid \<or> ev_faculty_id r = uid \<or>
      (\<exists>es \<in> set (rls_experiment_submissions d uid).
         es_id es = ev_submission_id r \<and> es_student_id es = uid))"

definition evaluations_insert :: "db \<Rightarrow> uuid \<Rightarrow> evaluation \<Rightarrow> bool" where
  "evaluations_insert d uid r =
     (is_admin d uid \<or>
      (ev_faculty_id r = uid \<and>
       (\<exists>es \<in> set (rls_experiment_submissions d uid). \<exists>e \<in> set (rls_experiments d uid).
        \<exists>fs \<in> set (rls_faculty_subjects d uid).
          es_experiment_id es = e_id e \<and> e_subject_id e = fs_subject_id fs \<and>
          es_id es = ev_submission_id r \<and> fs_faculty_id fs = uid)))"

definition evaluations_update_policy :: "db \<Rightarrow> uuid \<Rightarrow> evaluation \<Rightarrow> bool" where
  "evaluations_update_policy d uid r = (is_admin d uid \<or> ev_faculty_id r = uid)"

definition rls_evaluations :: "db \<Rightarrow> uuid \<Rightarrow> evaluation list" where
  "rls_evaluations d uid = filter (evaluations_select d uid) (evaluations d)"

subsection \<open>The policy catalogue and the two migrations\<close>

datatype table_name =
  Profiles | Subjects | Experiments | Student_subjects | Faculty_subjects
  | Experiment_submissions | Evaluations

datatype command = SELECT | INSERT | UPDATE | DELETE

datatype row =
  ProfileRow profile
  | SubjectRow subject
  | ExperimentRow experiment_row
  | EnrollmentRow student_subject
  | AssignmentRow faculty_subject
  | SubmissionRow experiment_submission
  | EvaluationRow evaluation

fun table_of :: "row \<Rightarrow> table_name" where
  "table_of (ProfileRow _) = Profiles"
| "table_of (SubjectRow _) = Subjects"
| "table_of (ExperimentRow _) = Experiments"
| "table_of (EnrollmentRow _) = Student_subjects"
| "table_of (AssignmentRow _) = Faculty_subjects"
| "table_of (SubmissionRow _) = Experiment_submissions"
| "table_of (EvaluationRow _) = Evaluations"

record policy =
  pol_name :: string
  pol_table :: table_name
  pol_cmd :: command
  pol_expr :: "db \<Rightarrow> uuid \<Rightarrow> row \<Rightarrow> bool"

definition on_profile :: "(db \<Rightarrow> uuid \<Rightarrow> profile \<Rightarrow> bool) \<Rightarrow> db \<Rightarrow> uuid \<Rightarrow> row \<Rightarrow> bool" where
  "on_profile f d uid r = (case r of ProfileRow x \<Rightarrow> f d uid x | _ \<Rightarrow> False)"

definition on_subject :: "(db \<Rightarrow> uuid \<Rightarrow> subject \<Rightarrow> bool) \<Rightarrow> db \<Rightarrow> uuid \<Rightarrow> row \<Rightarrow> bool" where
  "on_subject f d uid r = (case r of SubjectRow x \<Rightarrow> f d uid x | _ \<Rightarrow> False)"

definition on_experiment :: "(db \<Rightarrow> uuid \<Rightarrow> experiment_row \<Rightarrow> bool) \<Rightarrow> db \<Rightarrow> uuid \<Rightarrow> row \<Rightarrow> bool" where
  "on_experiment f d uid r = (case r of ExperimentRow x \<Rightarrow> f d uid x | _ \<Rightarrow> False)"

definition on_enrollment :: "(db \<Rightarrow> uuid \<Rightarrow> student_subject \<Rightarrow> bool) \<Rightarrow> db \<Rightarrow> uuid \<Rightarrow> row \<Rightarrow> bool" where
  "on_enrollment f d uid r = (case r of EnrollmentRow x \<Rightarrow> f d uid x | _ \<Rightarrow> False)"

definition on_assignment :: "(db \<Rightarrow> uuid \<Rightarrow> faculty_subject \<Rightarrow> bool) \<Rightarrow> db \<Rightarrow> uuid \<Rightarrow> row \<Rightarrow> bool" where
  "on_assignment f d uid r = (case r of AssignmentRow x \<Rightarrow> f d uid x | _ \<Rightarrow> False)"

definition on_submission :: "(db \<Rightarrow> uuid \<Rightarrow> experiment_submission \<Rightarrow> bool) \<Rightarrow> db \<Rightarrow> uuid \<Rightarrow> row \<Rightarrow> bool" where
  "on_submission f d uid r = (case r of SubmissionRow x \<Rightarrow> f d uid x | _ \<Rightarrow> False)"

definition on_evaluation :: "(db \<Rightarrow> uuid \<Rightarrow> evaluation \<Rightarrow> bool) \<Rightarrow> db \<Rightarrow> uuid \<Rightarrow> row \<Rightarrow> bool" where
  "on_evaluation f d uid r = (case r of EvaluationRow x \<Rightarrow> f d uid x | _ \<Rightarrow> False)"

definition mk_policy ::
  "string \<Rightarrow> table_name \<Rightarrow> command \<Rightarrow> (db \<Rightarrow> uuid \<Rightarrow> row \<Rightarrow> bool) \<Rightarrow> policy" where
  "mk_policy n t c f = \<lparr>pol_name = n, pol_table = t, pol_cmd = c, pol_expr = f\<rparr>"

text \<open>The policies the first migration creates, in its order.\<close>

definition migration_20260210140845 :: "policy list" where
  "migration_20260210140845 =
    [mk_policy ''profiles_select'' Profiles SELECT (on_profile profiles_select),
     mk_policy ''profiles_update_own'' Profiles UPDATE (on_profile profiles_update_own),
     mk_policy ''subjects_select'' Subjects SELECT (on_subject subjects_select),
     mk_policy ''subjects_insert_admin'' Subjects INSERT (on_subject subjects_insert_admin),
     mk_policy ''subjects_update_admin'' Subjects UPDATE (on_subject subjects_update_admin),
     mk_policy ''subjects_delete_admin'' Subjects DELETE (on_subject subjects_delete_admin),
     mk_policy ''experiments_select'' Experiments SELECT (on_experiment experiments_select),
     mk_policy ''experiments_insert'' Experiments INSERT (on_experiment experiments_insert),
     mk_policy ''experiments_update'' Experiments UPDATE (on_experiment experiments_update_policy),
     mk_policy ''experiments_delete'' Experiments DELETE (on_experiment experiments_delete),
     mk_policy ''student_subjects_select'' Student_subjects SELECT
       (on_enrollment student_subjects_select),
     mk_policy ''student_subjects_insert'' Student_subjects INSERT
       (on_enrollment student_subjects_insert_original),
     mk_policy ''student_subjects_delete'' Student_subjects DELETE
       (on_enrollment student_subjects_delete),
     mk_policy ''faculty_subjects_select'' Faculty_subjects SELECT
       (on_assignment faculty_subjects_select),
     mk_policy ''faculty_subjects_insert'' Faculty_subjects INSERT
       (on_assignment faculty_subjects_insert),
     mk_policy ''faculty_subjects_delete'' Faculty_subjects DELETE
       (on_assignment faculty_subjects_delete),
     mk_policy ''submissions_select'' Experiment_submissions SELECT
       (on_submission submissions_select),
     mk_policy ''submissions_insert'' Experiment_submissions INSERT
       (on_submission submissions_insert),
     mk_policy ''submissions_update'' Experiment_submissions UPDATE
       (on_submission submissions_update),
     mk_policy ''evaluations_select'' Evaluations SELECT (on_evaluation evaluations_select),
     mk_policy ''evaluations_insert'' Evaluations INSERT (on_evaluation evaluations_insert),
     mk_policy ''evaluations_update'' Evaluations UPDATE (on_evaluation evaluations_update_policy)]"

text \<open>\<^verbatim>\<open>DROP POLICY IF EXISTS name ON table\<close>.\<close>

definition drop_policy :: "string \<Rightarrow> table_name \<Rightarrow> policy list \<Rightarrow> policy list" where
  "drop_policy n t ps = filter (\<lambda>p. \<not> (pol_name p = n \<and> pol_table p = t)) ps"

text \<open>The second migration: drop the admin-only insert policy, create the new one.\<close>

definition migration_20260217173141 :: "policy list \<Rightarrow> policy list" where
  "migration_20260217173141 ps =
     drop_policy ''student_subjects_insert'' Student_subjects ps @
     [mk_policy ''student_subjects_insert'' Student_subjects INSERT
        (on_enrollment student_subjects_insert)]"

definition current_policies :: "policy list" where
  "current_policies = migration_20260217173141 migration_20260210140845"

text \<open>
  Row-level security is enabled on all seven tables and every policy is permissive: a
  command on a row is allowed when some policy of that table and command holds, and
  denied when the table has no policy for the command.
\<close>

definition Authorize :: "policy list \<Rightarrow> db \<Rightarrow> uuid \<Rightarrow> command \<Rightarrow> row \<Rightarrow> bool" where
  "Authorize ps d uid c r =
     (\<exists>p \<in> set ps. pol_table p = table_of r \<and> pol_cmd p = c \<and> pol_expr p d uid r)"

section \<open>Table constraints\<close>

text \<open>
  The constraints the \<^verbatim>\<open>CREATE TABLE\<close> statements declare, as predicates of a database
  state: \<^verbatim>\<open>PRIMARY KEY\<close>, \<^verbatim>\<open>UNIQUE\<close>, \<^verbatim>\<open>REFERENCES\<close> and \<^verbatim>\<open>CHECK\<close>.
\<close>

definition primary_keys :: "db \<Rightarrow> bool" where
  "primary_keys d =
     (distinct (users d) \<and> distinct (map p_id (profiles d)) \<and>
      distinct (map s_id (subjects d)) \<and> distinct (map e_id (experiments d)) \<and>
      distinct (map ss_id (student_subjects d)) \<and> distinct (map fs_id (faculty_subjects d)) \<and>
      distinct (map es_id (experiment_submissions d)) \<and> distinct (map ev_id (evaluations d)))"

definition unique_keys :: "db \<Rightarrow> bool" where
  "unique_keys d =
     (distinct (map (\<lambda>r. (ss_student_id r, ss_subject_id r)) (student_subjects d)) \<and>
      distinct (map (\<lambda>r. (fs_faculty_id r, fs_subject_id r)) (faculty_subjects d)) \<and>
      distinct (map (\<lambda>r. (es_experiment_id r, es_student_id r)) (experiment_submissions d)) \<and>
      distinct (map ev_submission_id (evaluations d)))"

definition foreign_keys :: "db \<Rightarrow> bool" where
  "foreign_keys d =
     ((\<forall>r \<in> set (profiles d). p_id r \<in> set (users d)) \<and>
      (\<forall>r \<in> set (experiments d). e_subject_id r \<in> set (map s_id (subjects d))) \<and>
      (\<forall>r \<in> set (student_subjects d).
         ss_student_id r \<in> set (users d) \<and> ss_subject_id r \<in> set (map s_id (subjects d))) \<and>
      (\<forall>r \<in> set (faculty_subjects d).
         fs_faculty_id r \<in> set (users d) \<and> fs_subject_id r \<in> set (map s_id (subjects d))) \<and>
      (\<forall>r \<in> set (experiment_submissions d).
         es_experiment_id r \<in> set (map e_id (experiments d)) \<and> es_student_id r \<in> set (users d)) \<and>
      (\<forall>r \<in> set (evaluations d).
         ev_submission_id r \<in> set (map es_id (experiment_submissions d)) \<and>
         ev_faculty_id r \<in> set (users d)))"

definition checks :: "db \<Rightarrow> bool" where
  "checks d =
     ((\<forall>r \<in> set (profiles d). department_check (p_department r)) \<and>
      (\<forall>r \<in> set (subjects d). department_check (s_department r)) \<and>
      (\<forall>r \<in> set (experiment_submissions d). status_check (es_status r)) \<and>
      (\<forall>r \<in> set (evaluations d). marks_check (ev_marks r)))"

section \<open>Statements\<close>

text \<open>
  What a statement of the client does to the database, or the error that aborts it. The
  texts of the request body are converted to the column type first; an insert then checks
  the \<^verbatim>\<open>WITH CHECK\<close> policy, then the \<^verbatim>\<open>CHECK\<close> constraints, then the unique indexes,
  then the foreign keys. The \<open>id\<close> of a new row is the value \<^verbatim>\<open>gen_random_uuid()\<close>
  returned, a parameter here.
\<close>

datatype error =
  InvalidMarks
  | MissingFeedback
  | UnstorableText
  | RlsViolation
  | CheckViolation
  | UniqueViolation
  | ForeignKeyViolation
  | InvalidTextRepresentation

text \<open>
  A \<open>string\<close> holds a JavaScript string as the bytes of its UTF-8 encoding, a surrogate
  without its partner (U+D800 to U+DFFF) as the three bytes \<open>ED\<close>, \<open>A0\<close> to \<open>BF\<close>,
  \<open>80\<close> to \<open>BF\<close>. A column of type \<^verbatim>\<open>TEXT\<close> holds neither U+0000 nor a lone surrogate:
  the conversion of the request body refuses them (SQLSTATE 22P05 for U+0000) and the
  statement fails.
\<close>

fun lone_surrogate :: "string \<Rightarrow> bool" where
  "lone_surrogate (a # b # cs) =
     ((a = CHR 0xED \<and> (0xA0::nat) \<le> of_char b) \<or> lone_surrogate (b # cs))"
| "lone_surrogate _ = False"

definition storable :: "string \<Rightarrow> bool" where
  "storable s = (CHR 0x00 \<notin> set s \<and> \<not> lone_surrogate s)"

definition storable_opt :: "string option \<Rightarrow> bool" where
  "storable_opt x = (case x of None \<Rightarrow> True | Some s \<Rightarrow> storable s)"

definition insert_evaluation :: "db \<Rightarrow> uuid \<Rightarrow> evaluation \<Rightarrow> error + db" where
  "insert_evaluation d uid r =
     (if \<not> storable_opt (ev_feedback r) then Inl UnstorableText
      else if \<not> Authorize current_policies d uid INSERT (EvaluationRow r) then Inl RlsViolation
      else if \<not> marks_check (ev_marks r) then Inl CheckViolation
      else if ev_id r \<in> set (map ev_id (evaluations d)) \<or>
              ev_submission_id r \<in> set (map ev_submission_id (evaluations d))
        then Inl UniqueViolation
      else if ev_submission_id r \<notin> set (map es_id (experiment_submissions d)) \<or>
              ev_faculty_id r \<notin> set (users d)
        then Inl ForeignKeyViolation
      else Inr (d\<lparr>evaluations := evaluations d @ [r]\<rparr>))"

text \<open>
  \<^verbatim>\<open>.update({ marks, feedback }).eq(...)\<close>: the rows the filter \<open>wh\<close> keeps, that the
  caller may select, and that the \<^verbatim>\<open>USING\<close> of the update policy admits, are rewritten;
  the others are passed over without an error. The update policy has no \<^verbatim>\<open>WITH CHECK\<close>,
  so its \<^verbatim>\<open>USING\<close> is also checked on each new row, with the select policy.
\<close>

definition update_evaluations ::
  "db \<Rightarrow> uuid \<Rightarrow> (evaluation \<Rightarrow> bool) \<Rightarrow> int \<Rightarrow> string \<Rightarrow> error + db" where
  "update_evaluations d uid wh marks feedback =
     (let hit = (\<lambda>r. wh r \<and> Authorize current_policies d uid SELECT (EvaluationRow r) \<and>
                    Authorize current_policies d uid UPDATE (EvaluationRow r));
          new = (\<lambda>r. r\<lparr>ev_marks := Some marks, ev_feedback := Some feedback\<rparr>)
      in if \<not> storable feedback then Inl UnstorableText
         else if \<exists>r \<in> set (evaluations d). hit r \<and>
              \<not> (Authorize current_policies d uid UPDATE (EvaluationRow (new r)) \<and>
                 Authorize current_policies d uid SELECT (EvaluationRow (new r)))
           then Inl RlsViolation
         else if \<exists>r \<in> set (evaluations d). hit r \<and> \<not> marks_check (ev_marks (new r))
           then Inl CheckViolation
         else Inr (d\<lparr>evaluations := map (\<lambda>r. if hit r then new r else r) (evaluations d)\<rparr>))"

definition insert_submission :: "db \<Rightarrow> uuid \<Rightarrow> experiment_submission \<Rightarrow> error + db" where
  "insert_submission d uid r =
     (if \<not> (storable_opt (es_code r) \<and> storable_opt (es_language r) \<and> storable (es_status r))
        then Inl UnstorableText
      else if \<not> Authorize current_policies d uid INSERT (SubmissionRow r) then Inl RlsViolation
      else if \<not> status_check (es_status r) then Inl CheckViolation
      else if es_id r \<in> set (map es_id (experiment_submissions d)) \<or>
              (es_experiment_id r, es_student_id r) \<in>
                set (map (\<lambda>x. (es_experiment_id x, es_student_id x)) (experiment_submissions d))
        then Inl UniqueViolation
      else if es_experiment_id r \<notin> set (map e_id (experiments d)) \<or>
              es_student_id r \<notin> set (users d)
        then Inl ForeignKeyViolation
      else Inr (d\<lparr>experiment_submissions := experiment_submissions d @ [r]\<rparr>))"

text \<open>
  The object passed to \<^verbatim>\<open>.update(...)\<close> on \<^verbatim>\<open>experiment_submissions\<close>: the client sets
  \<^verbatim>\<open>code\<close>, \<^verbatim>\<open>language\<close> and \<^verbatim>\<open>status\<close>, or \<^verbatim>\<open>status\<close> alone. \<open>None\<close> is a key the
  object does not have.
\<close>

record submission_patch =
  set_code :: "string option"
  set_language :: "string option"
  set_status :: "string option"

definition apply_patch :: "submission_patch \<Rightarrow> experiment_submission \<Rightarrow> experiment_submission" where
  "apply_patch p r =
     r\<lparr>es_code := (case set_code p of None \<Rightarrow> es_code r | Some c \<Rightarrow> Some c),
       es_language := (case set_language p of None \<Rightarrow> es_language r | Some l \<Rightarrow> Some l),
       es_status := (case set_status p of None \<Rightarrow> es_status r | Some s \<Rightarrow> s)\<rparr>"

definition update_submissions ::
  "db \<Rightarrow> uuid \<Rightarrow> (experiment_submission \<Rightarrow> bool) \<Rightarrow> submission_patch \<Rightarrow> error + db" where
  "update_submissions d uid wh p =
     (let hit = (\<lambda>r. wh r \<and> Authorize current_policies d uid SELECT (SubmissionRow r) \<and>
                    Authorize current_policies d uid UPDATE (SubmissionRow r))
      in if \<not> (storable_opt (set_code p) \<and> storable_opt (set_language p) \<and>
                storable_opt (set_status p))
           then Inl UnstorableText
         else if \<exists>r \<in> set (experiment_submissions d). hit r \<and>
              \<not> (Authorize current_policies d uid UPDATE (SubmissionRow (apply_patch p r)) \<and>
                 Authorize current_policies d uid SELECT (SubmissionRow (apply_patch p r)))
           then Inl RlsViolation
         else if \<exists>r \<in> set (experiment_submissions d). hit r \<and>
              \<not> status_check (es_status (apply_patch p r))
           then Inl CheckViolation
         else Inr (d\<lparr>experiment_submissions :=
                      map (\<lambda>r. if hit r then apply_patch p r else r) (experiment_submissions d)\<rparr>))"

text \<open>
  \<^verbatim>\<open>.maybeSingle()\<close>: the row when the query returns one, \<^verbatim>\<open>null\<close> when it returns none;
  on several rows it reports an error with \<^verbatim>\<open>data: null\<close>, and both callers read
  \<^verbatim>\<open>data\<close> only.
\<close>

fun maybeSingle :: "'a list \<Rightarrow> 'a option" where
  "maybeSingle [x] = Some x"
| "maybeSingle _ = None"

subsection \<open>\<^verbatim>\<open>submitCode\<close> of the code editor page\<close>

definition submitCode :: "db \<Rightarrow> uuid \<Rightarrow> uuid \<Rightarrow> uuid \<Rightarrow> string \<Rightarrow> string \<Rightarrow> error + db" where
  "submitCode d user_id new_id selectedExperiment_id code language =
     (case maybeSingle
             (filter (\<lambda>r. es_student_id r = user_id \<and> es_experiment_id r = selectedExperiment_id)
                (rls_experiment_submissions d user_id)) of
        Some existing \<Rightarrow>
          update_submissions d user_id (\<lambda>r. es_id r = es_id existing)
            \<lparr>set_code = Some code, set_language = Some language, set_status = Some ''submitted''\<rparr>
      | None \<Rightarrow>
          insert_submission d user_id
            \<lparr>es_id = new_id, es_experiment_id = selectedExperiment_id, es_student_id = user_id,
             es_code = Some code, es_language = Some language, es_status = ''submitted''\<rparr>)"

subsection \<open>\<^verbatim>\<open>submitEvaluation\<close> of the faculty page\<close>

text \<open>
  \<^verbatim>\<open>String.prototype.trim\<close> removes the white space and the line terminators of
  ECMAScript from both ends. \<open>WhiteSpace\<close> lists them in UTF-8: U+0009 to U+000D,
  U+0020, U+00A0, U+1680, U+2000 to U+200A, U+2028, U+2029, U+202F, U+205F, U+3000 and
  U+FEFF. \<open>strip\<close> removes from the front of a string every leading occurrence of one
  of the given byte sequences.
\<close>

definition WhiteSpace :: "string list" where
  "WhiteSpace =
    [[CHR 0x09], [CHR 0x0A], [CHR 0x0B], [CHR 0x0C], [CHR 0x0D], [CHR 0x20],
     [CHR 0xC2, CHR 0xA0], [CHR 0xE1, CHR 0x9A, CHR 0x80],
     [CHR 0xE2, CHR 0x80, CHR 0x80], [CHR 0xE2, CHR 0x80, CHR 0x81],
     [CHR 0xE2, CHR 0x80, CHR 0x82], [CHR 0xE2, CHR 0x80, CHR 0x83],
     [CHR 0xE2, CHR 0x80, CHR 0x84], [CHR 0xE2, CHR 0x80, CHR 0x85],
     [CHR 0xE2, CHR 0x80, CHR 0x86], [CHR 0xE2, CHR 0x80, CHR 0x87],
     [CHR 0xE2, CHR 0x80, CHR 0x88], [CHR 0xE2, CHR 0x80, CHR 0x89],
     [CHR 0xE2, CHR 0x80, CHR 0x8A], [CHR 0xE2, CHR 0x80, CHR 0xA8],
     [CHR 0xE2, CHR 0x80, CHR 0xA9], [CHR 0xE2, CHR 0x80, CHR 0xAF],
     [CHR 0xE2, CHR 0x81, CHR 0x9F], [CHR 0xE3, CHR 0x80, CHR 0x80],
     [CHR 0xEF, CHR 0xBB, CHR 0xBF]]"

function strip :: "string list \<Rightarrow> string \<Rightarrow> string" where
  "strip ws s =
     (case find (\<lambda>w. w \<noteq> [] \<and> take (length w) s = w) ws of
        None \<Rightarrow> s
      | Some w \<Rightarrow> strip ws (drop (length w) s))"
  by pat_completeness auto
termination
proof (relation "measure (\<lambda>(ws, s). length s)")
  show "wf (measure (\<lambda>(ws, s). length s))" by simp
next
  fix ws :: "string list" and s w :: string
  assume "find (\<lambda>w. w \<noteq> [] \<and> take (length w) s = w) ws = Some w"
  then have "w \<noteq> []" and "take (length w) s = w"
    by (auto simp: find_Some_iff)
  then have "s \<noteq> []" by auto
  with \<open>w \<noteq> []\<close> show "((ws, drop (length w) s), (ws, s)) \<in> measure (\<lambda>(ws, s). length s)"
    by simp
qed

declare strip.simps [simp del]

definition trimStart :: "string \<Rightarrow> string" where
  "trimStart s = strip WhiteSpace s"

definition trimEnd :: "string \<Rightarrow> string" where
  "trimEnd s = rev (strip (map rev WhiteSpace) (rev s))"

definition trim :: "string \<Rightarrow> string" where
  "trim s = trimEnd (trimStart s)"

text \<open>\<open>marksNum\<close> is the result of \<^verbatim>\<open>parseInt(marks)\<close>, \<open>None\<close> for \<^verbatim>\<open>NaN\<close>.\<close>

text \<open>
  The status write that follows the evaluation is awaited and its result dropped: an
  error of it changes nothing and is not reported.
\<close>

definition ignore_error :: "db \<Rightarrow> error + db \<Rightarrow> db" where
  "ignore_error d r = (case r of Inl _ \<Rightarrow> d | Inr d' \<Rightarrow> d')"

definition submitEvaluation ::
  "db \<Rightarrow> uuid \<Rightarrow> uuid \<Rightarrow> uuid \<Rightarrow> int option \<Rightarrow> string \<Rightarrow> error + db" where
  "submitEvaluation d user_id new_id selectedSubmission_id marksNum feedback =
     (case marksNum of
        None \<Rightarrow> Inl InvalidMarks
      | Some m \<Rightarrow>
          if m < 0 \<or> m > 100 then Inl InvalidMarks
          else if trim feedback = [] then Inl MissingFeedback
          else
            (case (case maybeSingle
                          (filter (\<lambda>r. ev_submission_id r = selectedSubmission_id)
                             (rls_evaluations d user_id)) of
                     Some existing \<Rightarrow>
                       update_evaluations d user_id (\<lambda>r. ev_id r = ev_id existing) m (trim feedback)
                   | None \<Rightarrow>
                       insert_evaluation d user_id
                         \<lparr>ev_id = new_id, ev_submission_id = selectedSubmission_id,
                          ev_faculty_id = user_id, ev_marks = Some m,
                          ev_feedback = Some (trim feedback)\<rparr>) of
               Inl e \<Rightarrow> Inl e
             | Inr d1 \<Rightarrow>
                 Inr (ignore_error d1
                        (update_submissions d1 user_id (\<lambda>r. es_id r = selectedSubmission_id)
                           \<lparr>set_code = None, set_language = None,
                            set_status = Some ''evaluated''\<rparr>))))"

section \<open>The provisioning trigger\<close>

text \<open>
  A new row of \<^verbatim>\<open>auth.users\<close>: its \<^verbatim>\<open>id\<close> and its \<^verbatim>\<open>raw_user_meta_data\<close>, read
  through \<^verbatim>\<open>->>\<close>, which gives the text of a key, or NULL for a key that is absent.
\<close>

record auth_user =
  au_id :: uuid
  raw_user_meta_data :: "string \<rightharpoonup> string"

definition COALESCE :: "'a option \<Rightarrow> 'a \<Rightarrow> 'a" where
  "COALESCE x y = (case x of Some v \<Rightarrow> v | None \<Rightarrow> y)"

text \<open>
  The \<^verbatim>\<open>INSERT INTO public.profiles\<close> of the trigger function, which is
  \<^verbatim>\<open>SECURITY DEFINER\<close>: no policy applies, the constraints of the table do.
\<close>

definition insert_profile :: "db \<Rightarrow> profile \<Rightarrow> error + db" where
  "insert_profile d r =
     (if \<not> department_check (p_department r) then Inl CheckViolation
      else if p_id r \<in> set (map p_id (profiles d)) then Inl UniqueViolation
      else if p_id r \<notin> set (users d) then Inl ForeignKeyViolation
      else Inr (d\<lparr>profiles := profiles d @ [r]\<rparr>))"

definition handle_new_user :: "db \<Rightarrow> auth_user \<Rightarrow> error + db" where
  "handle_new_user d NEW =
     (case (case raw_user_meta_data NEW ''role'' of
              None \<Rightarrow> Inr None
            | Some t \<Rightarrow> (case app_role_of_text t of
                           None \<Rightarrow> Inl InvalidTextRepresentation
                         | Some r \<Rightarrow> Inr (Some r))) of
        Inl e \<Rightarrow> Inl e
      | Inr role \<Rightarrow>
          insert_profile d
            \<lparr>p_id = au_id NEW,
             p_full_name = Some (COALESCE (raw_user_meta_data NEW ''full_name'') []),
             p_role = COALESCE role Student,
             p_department = Some (COALESCE (raw_user_meta_data NEW ''department'') ''CSE'')\<rparr>)"

text \<open>
  The identity provider inserts the row into \<^verbatim>\<open>auth.users\<close>; the trigger
  \<^verbatim>\<open>on_auth_user_created\<close> runs \<^verbatim>\<open>AFTER INSERT\<close>, in the same statement: an error of
  the function undoes the insert.
\<close>

definition on_auth_user_created :: "db \<Rightarrow> auth_user \<Rightarrow> error + db" where
  "on_auth_user_created d NEW =
     (if au_id NEW \<in> set (users d) then Inl UniqueViolation
      else handle_new_user (d\<lparr>users := users d @ [au_id NEW]\<rparr>) NEW)"

section \<open>Deletes and \<^verbatim>\<open>ON DELETE CASCADE\<close>\<close>

text \<open>
  Each function removes the rows \<open>P\<close> selects from one table and then, for every
  \<^verbatim>\<open>REFERENCES ... ON DELETE CASCADE\<close> that points to the table, the rows that reference
  a removed key. Cascaded deletes are not subject to the policies.
\<close>

definition delete_evaluations_where :: "(evaluation \<Rightarrow> bool) \<Rightarrow> db \<Rightarrow> db" where
  "delete_evaluations_where P d = d\<lparr>evaluations := filter (\<lambda>r. \<not> P r) (evaluations d)\<rparr>"

definition delete_submissions_where :: "(experiment_submission \<Rightarrow> bool) \<Rightarrow> db \<Rightarrow> db" where
  "delete_submissions_where P d =
     (let gone = map es_id (filter P (experiment_submissions d))
      in delete_evaluations_where (\<lambda>r. ev_submission_id r \<in> set gone)
           (d\<lparr>experiment_submissions := filter (\<lambda>r. \<not> P r) (experiment_submissions d)\<rparr>))"

definition delete_experiments_where :: "(experiment_row \<Rightarrow> bool) \<Rightarrow> db \<Rightarrow> db" where
  "delete_experiments_where P d =
     (let gone = map e_id (filter P (experiments d))
      in delete_submissions_where (\<lambda>r. es_experiment_id r \<in> set gone)
           (d\<lparr>experiments := filter (\<lambda>r. \<not> P r) (experiments d)\<rparr>))"

definition delete_student_subjects_where :: "(student_subject \<Rightarrow> bool) \<Rightarrow> db \<Rightarrow> db" where
  "delete_student_subjects_where P d =
     d\<lparr>student_subjects := filter (\<lambda>r. \<not> P r) (student_subjects d)\<rparr>"

definition delete_faculty_subjects_where :: "(faculty_subject \<Rightarrow> bool) \<Rightarrow> db \<Rightarrow> db" where
  "delete_faculty_subjects_where P d =
     d\<lparr>faculty_subjects := filter (\<lambda>r. \<not> P r) (faculty_subjects d)\<rparr>"

definition delete_profiles_where :: "(profile \<Rightarrow> bool) \<Rightarrow> db \<Rightarrow> db" where
  "delete_profiles_where P d = d\<lparr>profiles := filter (\<lambda>r. \<not> P r) (profiles d)\<rparr>"

definition delete_subjects_where :: "(subject \<Rightarrow> bool) \<Rightarrow> db \<Rightarrow> db" where
  "delete_subjects_where P d =
     (let gone = map s_id (filter P (subjects d))
      in delete_experiments_where (\<lambda>r. e_subject_id r \<in> set gone)
           (delete_student_subjects_where (\<lambda>r. ss_subject_id r \<in> set gone)
              (delete_faculty_subjects_where (\<lambda>r. fs_subject_id r \<in> set gone)
                 (d\<lparr>subjects := filter (\<lambda>r. \<not> P r) (subjects d)\<rparr>))))"

text \<open>Removing identities from \<^verbatim>\<open>auth.users\<close>, which five tables reference.\<close>

definition delete_users_where :: "(uuid \<Rightarrow> bool) \<Rightarrow> db \<Rightarrow> db" where
  "delete_users_where P d =
     delete_profiles_where (\<lambda>r. P (p_id r))
       (delete_student_subjects_where (\<lambda>r. P (ss_student_id r))
          (delete_faculty_subjects_where (\<lambda>r. P (fs_faculty_id r))
             (delete_submissions_where (\<lambda>r. P (es_student_id r))
                (delete_evaluations_where (\<lambda>r. P (ev_faculty_id r))
                   (d\<lparr>users := filter (\<lambda>u. \<not> P u) (users d)\<rparr>)))))"

text \<open>
  A \<^verbatim>\<open>.delete()\<close> of the client with its filter \<open>wh\<close>, or the removal of identities
  by the identity provider. The client's delete reaches the rows that the filter keeps,
  that the caller may select and that a \<^verbatim>\<open>DELETE\<close> policy admits; without such a policy
  it reaches none.
\<close>

datatype delete_stmt =
  DeleteFrom table_name "row \<Rightarrow> bool"
  | DeleteUsers "uuid \<Rightarrow> bool"

definition deletable :: "db \<Rightarrow> uuid \<Rightarrow> (row \<Rightarrow> bool) \<Rightarrow> row \<Rightarrow> bool" where
  "deletable d uid wh r =
     (wh r \<and> Authorize current_policies d uid SELECT r \<and> Authorize current_policies d uid DELETE r)"

fun exec_delete :: "db \<Rightarrow> uuid \<Rightarrow> delete_stmt \<Rightarrow> db" where
  "exec_delete d uid (DeleteUsers P) = delete_users_where P d"
| "exec_delete d uid (DeleteFrom Profiles wh) =
     delete_profiles_where (\<lambda>r. deletable d uid wh (ProfileRow r)) d"
| "exec_delete d uid (DeleteFrom Subjects wh) =
     delete_subjects_where (\<lambda>r. deletable d uid wh (SubjectRow r)) d"
| "exec_delete d uid (DeleteFrom Experiments wh) =
     delete_experiments_where (\<lambda>r. deletable d uid wh (ExperimentRow r)) d"
| "exec_delete d uid (DeleteFrom Student_subjects wh) =
     delete_student_subjects_where (\<lambda>r. deletable d uid wh (EnrollmentRow r)) d"
| "exec_delete d uid (DeleteFrom Faculty_subjects wh) =
     delete_faculty_subjects_where (\<lambda>r. deletable d uid wh (AssignmentRow r)) d"
| "exec_delete d uid (DeleteFrom Experiment_submissions wh) =
     delete_submissions_where (\<lambda>r. deletable d uid wh (SubmissionRow r)) d"
| "exec_delete d uid (DeleteFrom Evaluations wh) =
     delete_evaluations_where (\<lambda>r. deletable d uid wh (EvaluationRow r)) d"

text \<open>\<^verbatim>\<open>handleDelete\<close> of the subject management panel: \<^verbatim>\<open>.delete().eq("id", id)\<close>.\<close>

definition handleDelete :: "db \<Rightarrow> uuid \<Rightarrow> uuid \<Rightarrow> db" where
  "handleDelete d uid subject_id =
     exec_delete d uid
       (DeleteFrom Subjects (\<lambda>r. case r of SubjectRow s \<Rightarrow> s_id s = subject_id | _ \<Rightarrow> False))"

section \<open>The code-execution function\<close>

text \<open>
  \<^verbatim>\<open>supabase/functions/execute-code/index.ts\<close>. A field of the request body is a JSON
  value, or \<^verbatim>\<open>undefined\<close> when the body has no such key; \<open>JNum\<close> holds a number (a
  fraction is as true as any other number that is not zero), \<open>JObject\<close> an array or an
  object.
\<close>

datatype json = JUndefined | JNull | JBool bool | JNum int | JStr string | JObject

fun truthy :: "json \<Rightarrow> bool" where
  "truthy JUndefined = False"
| "truthy JNull = False"
| "truthy (JBool b) = b"
| "truthy (JNum n) = (n \<noteq> 0)"
| "truthy (JStr s) = (s \<noteq> [])"
| "truthy JObject = True"

record lang_config =
  language :: string
  version :: string

definition LANGUAGE_MAP :: "(string \<times> lang_config) list" where
  "LANGUAGE_MAP =
    [(''python'', \<lparr>language = ''python'', version = ''3.10.0''\<rparr>),
     (''javascript'', \<lparr>language = ''javascript'', version = ''18.15.0''\<rparr>),
     (''java'', \<lparr>language = ''java'', version = ''15.0.2''\<rparr>),
     (''c'', \<lparr>language = ''c'', version = ''10.2.0''\<rparr>),
     (''cpp'', \<lparr>language = ''c++'', version = ''10.2.0''\<rparr>),
     (''c++'', \<lparr>language = ''c++'', version = ''10.2.0''\<rparr>)]"

text \<open>
  \<^verbatim>\<open>LANGUAGE_MAP\<close> is an object literal, and \<^verbatim>\<open>LANGUAGE_MAP[key]\<close> a property read: an
  own property first, then the properties every object inherits from
  \<^verbatim>\<open>Object.prototype\<close>, which are functions (the runtime, Deno, removes \<^verbatim>\<open>__proto__\<close>).
  A function is a true value whose \<^verbatim>\<open>language\<close> and \<^verbatim>\<open>version\<close> are \<^verbatim>\<open>undefined\<close>.
\<close>

definition Object_prototype :: "string list" where
  "Object_prototype =
    [''constructor'', ''__defineGetter__'', ''__defineSetter__'', ''hasOwnProperty'',
     ''__lookupGetter__'', ''__lookupSetter__'', ''isPrototypeOf'', ''propertyIsEnumerable'',
     ''toString'', ''valueOf'', ''toLocaleString'']"

datatype property = Own lang_config | Inherited | Undefined

definition get_property :: "string \<Rightarrow> property" where
  "get_property key =
     (case map_of LANGUAGE_MAP key of
        Some c \<Rightarrow> Own c
      | None \<Rightarrow> if key \<in> set Object_prototype then Inherited else Undefined)"

text \<open>\<^verbatim>\<open>toLowerCase\<close> on the letters of ASCII; the keys are ASCII.\<close>

definition lower_char :: "char \<Rightarrow> char" where
  "lower_char c =
     (let n = (of_char c :: nat) in if 65 \<le> n \<and> n \<le> 90 then char_of (n + 32) else c)"

definition toLowerCase :: "string \<Rightarrow> string" where
  "toLowerCase s = map lower_char s"

text \<open>
  The body of the request sent to the sandbox; \<^verbatim>\<open>JSON.stringify\<close> leaves out a key
  whose value is \<^verbatim>\<open>undefined\<close>, here \<open>None\<close>.
\<close>

record piston_request =
  pr_language :: "string option"
  pr_version :: "string option"
  pr_file_name :: string
  pr_file_content :: json
  pr_stdin :: json
  pr_run_timeout :: nat
  pr_compile_timeout :: nat

text \<open>
  What the handler does with a request: answer the preflight, answer 400 with an error
  message, answer 500 from the \<^verbatim>\<open>catch\<close>, or call \<^verbatim>\<open>fetch\<close> on the sandbox with a body.
\<close>

datatype outcome =
  Preflight
  | Status400 string
  | Status500
  | Forwarded piston_request

text \<open>
  \<open>rq_body\<close> is the result of \<^verbatim>\<open>await req.json()\<close> taken apart into \<^verbatim>\<open>code\<close>,
  \<^verbatim>\<open>language\<close> and \<^verbatim>\<open>stdin\<close>; \<open>None\<close> when the body is not JSON or is \<^verbatim>\<open>null\<close>, where
  the destructuring throws.
\<close>

record request =
  rq_method :: string
  rq_body :: "(json \<times> json \<times> json) option"

definition serve :: "request \<Rightarrow> outcome" where
  "serve req =
     (if rq_method req = ''OPTIONS'' then Preflight
      else case rq_body req of
        None \<Rightarrow> Status500
      | Some (code, lang, stdin) \<Rightarrow>
          if \<not> truthy code \<or> \<not> truthy lang then Status400 ''Code and language are required''
          else (case lang of
                  JStr l \<Rightarrow>
                    (let forward = (\<lambda>c v. Forwarded
                           \<lparr>pr_language = c, pr_version = v,
                            pr_file_name = (if l = ''java'' then ''Main.java'' else ''main''),
                            pr_file_content = code,
                            pr_stdin = (if truthy stdin then stdin else JStr []),
                            pr_run_timeout = 10000, pr_compile_timeout = 10000\<rparr>)
                     in case get_property (toLowerCase l) of
                          Undefined \<Rightarrow> Status400 (''Unsupported language: '' @ l)
                        | Own langConfig \<Rightarrow>
                            forward (Some (language langConfig)) (Some (version langConfig))
                        | Inherited \<Rightarrow> forward None None)
                | _ \<Rightarrow> Status500))"

section \<open>Resolving the chain, as the specification words it\<close>

text \<open>
  The subject of a submission, found by following the keys Submission, Experiment,
  Subject one row at a time; \<open>None\<close> when a row of the chain is missing. The policies
  do not use it: they join the tables.
\<close>

definition resolved_subject :: "db \<Rightarrow> uuid \<Rightarrow> uuid option" where
  "resolved_subject d submission_id =
     (case find (\<lambda>es. es_id es = submission_id) (experiment_submissions d) of
        None \<Rightarrow> None
      | Some es \<Rightarrow>
          (case find (\<lambda>e. e_id e = es_experiment_id es) (experiments d) of
             None \<Rightarrow> None
           | Some e \<Rightarrow>
               (case find (\<lambda>s. s_id s = e_subject_id e) (subjects d) of
                  None \<Rightarrow> None
                | Some s \<Rightarrow> Some (s_id s))))"

section \<open>A small department\<close>

text \<open>
  An administrator, three faculty members, two students; two subjects, an experiment under
  the first; \<open>fac1\<close> and \<open>fac3\<close> assigned to the first subject, \<open>fac2\<close> to the
  second; \<open>stu1\<close> enrolled in the first, with a submission for the experiment.
\<close>

definition lab :: db where
  "lab =
    \<lparr>users = [''adm'', ''fac1'', ''fac2'', ''fac3'', ''stu1'', ''stu2''],
     profiles =
       [\<lparr>p_id = ''adm'', p_full_name = Some ''A'', p_role = Admin, p_department = Some ''CSE''\<rparr>,
        \<lparr>p_id = ''fac1'', p_full_name = Some ''F'', p_role = Faculty, p_department = Some ''CSE''\<rparr>,
        \<lparr>p_id = ''fac2'', p_full_name = Some ''G'', p_role = Faculty, p_department = Some ''IT''\<rparr>,
        \<lparr>p_id = ''fac3'', p_full_name = Some ''H'', p_role = Faculty, p_department = Some ''CSE''\<rparr>,
        \<lparr>p_id = ''stu1'', p_full_name = Some ''S'', p_role = Student, p_department = Some ''CSE''\<rparr>,
        \<lparr>p_id = ''stu2'', p_full_name = Some ''T'', p_role = Student, p_department = Some ''CSE''\<rparr>],
     subjects =
       [\<lparr>s_id = ''CS101'', s_name = ''Python'', s_code = Some ''CS101'', s_department = Some ''CSE''\<rparr>,
        \<lparr>s_id = ''CS304'', s_name = ''Networks'', s_code = Some ''CS304'', s_department = Some ''IT''\<rparr>],
     experiments = [\<lparr>e_id = ''exp1'', e_subject_id = ''CS101'', e_title = ''Lists''\<rparr>],
     student_subjects = [\<lparr>ss_id = ''en1'', ss_student_id = ''stu1'', ss_subject_id = ''CS101''\<rparr>],
     faculty_subjects =
       [\<lparr>fs_id = ''as1'', fs_faculty_id = ''fac1'', fs_subject_id = ''CS101''\<rparr>,
        \<lparr>fs_id = ''as2'', fs_faculty_id = ''fac2'', fs_subject_id = ''CS304''\<rparr>,
        \<lparr>fs_id = ''as3'', fs_faculty_id = ''fac3'', fs_subject_id = ''CS101''\<rparr>],
     experiment_submissions =
       [\<lparr>es_id = ''sub1'', es_experiment_id = ''exp1'', es_student_id = ''stu1'',
         es_code = Some ''print(1)'', es_language = Some ''python'', es_status = ''submitted''\<rparr>],
     evaluations = []\<rparr>"

text \<open>
  The same department after the administrator has graded the submission through
  \<^verbatim>\<open>submitEvaluation\<close>: the evaluation names the administrator as its author.
\<close>

definition graded :: db where
  "graded =
     lab\<lparr>experiment_submissions :=
           [\<lparr>es_id = ''sub1'', es_experiment_id = ''exp1'', es_student_id = ''stu1'',
             es_code = Some ''print(1)'', es_language = Some ''python'',
             es_status = ''evaluated''\<rparr>],
         evaluations :=
           [\<lparr>ev_id = ''ev1'', ev_submission_id = ''sub1'', ev_faculty_id = ''adm'',
             ev_marks = Some 85, ev_feedback = Some ''Good''\<rparr>]\<rparr>"

text \<open>The database after a statement: a statement that fails leaves it as it was.\<close>

definition state_after :: "db \<Rightarrow> error + db \<Rightarrow> db" where
  "state_after d r = (case r of Inl _ \<Rightarrow> d | Inr d' \<Rightarrow> d')"

text \<open>The department after \<open>fac1\<close> has marked the submission instead.\<close>

definition marked :: db where
  "marked =
     lab\<lparr>evaluations :=
           [\<lparr>ev_id = ''ev1'', ev_submission_id = ''sub1'', ev_faculty_id = ''fac1'',
             ev_marks = Some 85, ev_feedback = Some ''Good''\<rparr>]\<rparr>"

text \<open>
  The department after \<open>fac3\<close> has submitted code of their own for the experiment, and
  then after \<open>fac1\<close> has marked that submission.
\<close>

definition peer :: db where
  "peer =
     lab\<lparr>experiment_submissions :=
           experiment_submissions lab @
           [\<lparr>es_id = ''sub2'', es_experiment_id = ''exp1'', es_student_id = ''fac3'',
             es_code = Some ''print(3)'', es_language = Some ''python'',
             es_status = ''submitted''\<rparr>]\<rparr>"

definition peer_marked :: db where
  "peer_marked =
     peer\<lparr>evaluations :=
           [\<lparr>ev_id = ''ev2'', ev_submission_id = ''sub2'', ev_faculty_id = ''fac1'',
             ev_marks = Some 85, ev_feedback = Some ''Good''\<rparr>]\<rparr>"

section \<open>The catalogue after both migrations\<close>

lemma current_policies_eq:
  "current_policies =
    [mk_policy ''profiles_select'' Profiles SELECT (on_profile profiles_select),
     mk_policy ''profiles_update_own'' Profiles UPDATE (on_profile profiles_update_own),
     mk_policy ''subjects_select'' Subjects SELECT (on_subject subjects_select),
     mk_policy ''subjects_insert_admin'' Subjects INSERT (on_subject subjects_insert_admin),
     mk_policy ''subjects_update_admin'' Subjects UPDATE (on_subject subjects_update_admin),
     mk_policy ''subjects_delete_admin'' Subjects DELETE (on_subject subjects_delete_admin),
     mk_policy ''experiments_select'' Experiments SELECT (on_experiment experiments_select),
     mk_policy ''experiments_insert'' Experiments INSERT (on_experiment experiments_insert),
     mk_policy ''experiments_update'' Experiments UPDATE (on_experiment experiments_update_policy),
     mk_policy ''experiments_delete'' Experiments DELETE (on_experiment experiments_delete),
     mk_policy ''student_subjects_select'' Student_subjects SELECT
       (on_enrollment student_subjects_select),
     mk_policy ''student_subjects_delete'' Student_subjects DELETE
       (on_enrollment student_subjects_delete),
     mk_policy ''faculty_subjects_select'' Faculty_subjects SELECT
       (on_assignment faculty_subjects_select),
     mk_policy ''faculty_subjects_insert'' Faculty_subjects INSERT
       (on_assignment faculty_subjects_insert),
     mk_policy ''faculty_subjects_delete'' Faculty_subjects DELETE
       (on_assignment faculty_subjects_delete),
     mk_policy ''submissions_select'' Experiment_submissions SELECT
       (on_submission submissions_select),
     mk_policy ''submissions_insert'' Experiment_submissions INSERT
       (on_submission submissions_insert),
     mk_policy ''submissions_update'' Experiment_submissions UPDATE
       (on_submission submissions_update),
     mk_policy ''evaluations_select'' Evaluations SELECT (on_evaluation evaluations_select),
     mk_policy ''evaluations_insert'' Evaluations INSERT (on_evaluation evaluations_insert),
     mk_policy ''evaluations_update'' Evaluations UPDATE (on_evaluation evaluations_update_policy),
     mk_policy ''student_subjects_insert'' Student_subjects INSERT
       (on_enrollment student_subjects_insert)]"
  by (simp add: current_policies_def migration_20260217173141_def migration_20260210140845_def
      drop_policy_def mk_policy_def)

lemmas on_row_defs = on_profile_def on_subject_def on_experiment_def on_enrollment_def
  on_assignment_def on_submission_def on_evaluation_def

lemma Authorize_Cons:
  "Authorize (mk_policy n t c f # ps) d uid c' r =
     ((t = table_of r \<and> c = c' \<and> f d uid r) \<or> Authorize ps d uid c' r)"
  by (auto simp: Authorize_def mk_policy_def)

lemma Authorize_Nil: "Authorize [] d uid c r = False"
  by (simp add: Authorize_def)

lemma Authorize_profile:
  "Authorize current_policies d uid c (ProfileRow x) =
     (case c of SELECT \<Rightarrow> profiles_select d uid x | UPDATE \<Rightarrow> profiles_update_own d uid x
      | _ \<Rightarrow> False)"
  unfolding current_policies_eq
  by (cases c) (simp_all add: Authorize_Cons Authorize_Nil on_row_defs)

lemma Authorize_subject:
  "Authorize current_policies d uid c (SubjectRow x) =
     (case c of SELECT \<Rightarrow> subjects_select d uid x | INSERT \<Rightarrow> subjects_insert_admin d uid x
      | UPDATE \<Rightarrow> subjects_update_admin d uid x | DELETE \<Rightarrow> subjects_delete_admin d uid x)"
  unfolding current_policies_eq
  by (cases c) (simp_all add: Authorize_Cons Authorize_Nil on_row_defs)

lemma Authorize_experiment:
  "Authorize current_policies d uid c (ExperimentRow x) =
     (case c of SELECT \<Rightarrow> experiments_select d uid x | INSERT \<Rightarrow> experiments_insert d uid x
      | UPDATE \<Rightarrow> experiments_update_policy d uid x | DELETE \<Rightarrow> experiments_delete d uid x)"
  unfolding current_policies_eq
  by (cases c) (simp_all add: Authorize_Cons Authorize_Nil on_row_defs)

lemma Authorize_enrollment:
  "Authorize current_policies d uid c (EnrollmentRow x) =
     (case c of SELECT \<Rightarrow> student_subjects_select d uid x
      | INSERT \<Rightarrow> student_subjects_insert d uid x
      | UPDATE \<Rightarrow> False | DELETE \<Rightarrow> student_subjects_delete d uid x)"
  unfolding current_policies_eq
  by (cases c) (simp_all add: Authorize_Cons Authorize_Nil on_row_defs)

lemma Authorize_assignment:
  "Authorize current_policies d uid c (AssignmentRow x) =
     (case c of SELECT \<Rightarrow> faculty_subjects_select d uid x
      | INSERT \<Rightarrow> faculty_subjects_insert d uid x
      | UPDATE \<Rightarrow> False | DELETE \<Rightarrow> faculty_subjects_delete d uid x)"
  unfolding current_policies_eq
  by (cases c) (simp_all add: Authorize_Cons Authorize_Nil on_row_defs)

lemma Authorize_submission:
  "Authorize current_policies d uid c (SubmissionRow x) =
     (case c of SELECT \<Rightarrow> submissions_select d uid x | INSERT \<Rightarrow> submissions_insert d uid x
      | UPDATE \<Rightarrow> submissions_update d uid x | DELETE \<Rightarrow> False)"
  unfolding current_policies_eq
  by (cases c) (simp_all add: Authorize_Cons Authorize_Nil on_row_defs)

lemma Authorize_evaluation:
  "Authorize current_policies d uid c (EvaluationRow x) =
     (case c of SELECT \<Rightarrow> evaluations_select d uid x | INSERT \<Rightarrow> evaluations_insert d uid x
      | UPDATE \<Rightarrow> evaluations_update_policy d uid x | DELETE \<Rightarrow> False)"
  unfolding current_policies_eq
  by (cases c) (simp_all add: Authorize_Cons Authorize_Nil on_row_defs)

lemmas Authorize_current = Authorize_profile Authorize_subject Authorize_experiment
  Authorize_enrollment Authorize_assignment Authorize_submission Authorize_evaluation

lemma Authorize_original_enrollment_insert:
  "Authorize migration_20260210140845 d uid INSERT (EnrollmentRow x) = is_admin d uid"
  unfolding migration_20260210140845_def
  by (simp add: Authorize_Cons Authorize_Nil on_row_defs student_subjects_insert_original_def)

subsection \<open>What the caller's own view adds to the joins: nothing\<close>

lemma submissions_select_plain:
  "submissions_select d uid r =
     (is_admin d uid \<or> es_student_id r = uid \<or>
      (\<exists>e \<in> set (experiments d). e_id e = es_experiment_id r \<and>
         is_faculty_for_subject d uid (e_subject_id e)))"
proof -
  have "(\<exists>e \<in> set (rls_experiments d uid). \<exists>fs \<in> set (rls_faculty_subjects d uid).
           e_subject_id e = fs_subject_id fs \<and> e_id e = es_experiment_id r \<and> fs_faculty_id fs = uid)
        = (\<exists>e \<in> set (experiments d). e_id e = es_experiment_id r \<and>
             is_faculty_for_subject d uid (e_subject_id e))"
    unfolding rls_experiments_def rls_faculty_subjects_def experiments_select_def
      faculty_subjects_select_def is_faculty_for_subject_def
    by (simp, metis)
  then show ?thesis
    unfolding submissions_select_def by simp
qed

lemma evaluations_select_plain:
  "evaluations_select d uid r =
     (is_admin d uid \<or> ev_faculty_id r = uid \<or>
      (\<exists>es \<in> set (experiment_submissions d).
         es_id es = ev_submission_id r \<and> es_student_id es = uid))"
proof -
  have "(\<exists>es \<in> set (rls_experiment_submissions d uid).
           es_id es = ev_submission_id r \<and> es_student_id es = uid)
        = (\<exists>es \<in> set (experiment_submissions d).
             es_id es = ev_submission_id r \<and> es_student_id es = uid)"
    unfolding rls_experiment_submissions_def submissions_select_plain
    by (simp, metis)
  then show ?thesis
    unfolding evaluations_select_def by simp
qed

lemma evaluations_insert_plain:
  "evaluations_insert d uid r =
     (is_admin d uid \<or>
      (ev_faculty_id r = uid \<and>
       (\<exists>es \<in> set (experiment_submissions d). \<exists>e \<in> set (experiments d).
          es_id es = ev_submission_id r \<and> e_id e = es_experiment_id es \<and>
          is_faculty_for_subject d uid (e_subject_id e))))"
proof -
  let ?L = "\<exists>es \<in> set (rls_experiment_submissions d uid). \<exists>e \<in> set (rls_experiments d uid).
        \<exists>fs \<in> set (rls_faculty_subjects d uid).
          es_experiment_id es = e_id e \<and> e_subject_id e = fs_subject_id fs \<and>
          es_id es = ev_submission_id r \<and> fs_faculty_id fs = uid"
  let ?R = "\<exists>es \<in> set (experiment_submissions d). \<exists>e \<in> set (experiments d).
          es_id es = ev_submission_id r \<and> e_id e = es_experiment_id es \<and>
          is_faculty_for_subject d uid (e_subject_id e)"
  have "?L \<Longrightarrow> ?R"
    unfolding rls_experiment_submissions_def rls_experiments_def rls_faculty_subjects_def
      is_faculty_for_subject_def
    by (simp, metis)
  moreover have "?R \<Longrightarrow> ?L"
  proof -
    assume ?R
    then obtain es e where es: "es \<in> set (experiment_submissions d)"
      and e: "e \<in> set (experiments d)" and k: "es_id es = ev_submission_id r"
      "e_id e = es_experiment_id es" and f: "is_faculty_for_subject d uid (e_subject_id e)"
      by blast
    from f obtain fs where fs: "fs \<in> set (faculty_subjects d)" "fs_faculty_id fs = uid"
      "fs_subject_id fs = e_subject_id e"
      unfolding is_faculty_for_subject_def by blast
    have "submissions_select d uid es"
      unfolding submissions_select_plain using e k f by blast
    then have 1: "es \<in> set (rls_experiment_submissions d uid)"
      using es by (simp add: rls_experiment_submissions_def)
    have 2: "e \<in> set (rls_experiments d uid)"
      using e by (simp add: rls_experiments_def experiments_select_def)
    have 3: "fs \<in> set (rls_faculty_subjects d uid)"
      using fs by (simp add: rls_faculty_subjects_def faculty_subjects_select_def)
    show ?L using 1 2 3 k fs by (intro bexI[of _ es] bexI[of _ e] bexI[of _ fs]) simp_all
  qed
  ultimately have "?L = ?R" by blast
  then show ?thesis unfolding evaluations_insert_def by simp
qed

lemma find_distinct_key:
  assumes "distinct (map f xs)" and "x \<in> set xs"
  shows "find (\<lambda>y. f y = f x) xs = Some x"
  using assms by (induction xs) (auto simp: image_iff)

lemma find_key_None: "find (\<lambda>y. f y = k) xs = None \<longleftrightarrow> k \<notin> set (map f xs)"
  by (auto simp: find_None_iff)

lemma find_key_Some: "find (\<lambda>y. f y = k) xs = Some x \<Longrightarrow> x \<in> set xs \<and> f x = k"
  by (auto simp: find_Some_iff)

section \<open>Claims about the policies\<close>

text \<open>
  C9. After the second migration an Enrollment row may be inserted exactly when the caller
  is the row's student or an administrator, and deleted exactly when the caller is an
  administrator; whoever the caller is, the insert of a row naming the caller as student
  passes. Under the first migration alone the insert was the administrator's.
\<close>

theorem enrollment_insert_delete:
  "Authorize current_policies d uid INSERT (EnrollmentRow r) =
     (ss_student_id r = uid \<or> is_admin d uid) \<and>
   Authorize current_policies d uid DELETE (EnrollmentRow r) = is_admin d uid \<and>
   Authorize current_policies d uid INSERT (EnrollmentRow (r\<lparr>ss_student_id := uid\<rparr>)) \<and>
   Authorize migration_20260210140845 d uid INSERT (EnrollmentRow r) = is_admin d uid"
  by (simp add: Authorize_enrollment Authorize_original_enrollment_insert
      student_subjects_insert_def student_subjects_delete_def)

theorem enrollment_insert_delete_witness:
  "\<not> is_admin lab ''stu2'' \<and>
   Authorize current_policies lab ''stu2'' INSERT
     (EnrollmentRow \<lparr>ss_id = ''en2'', ss_student_id = ''stu2'', ss_subject_id = ''CS304''\<rparr>) \<and>
   \<not> Authorize current_policies lab ''stu2'' DELETE
     (EnrollmentRow \<lparr>ss_id = ''en2'', ss_student_id = ''stu2'', ss_subject_id = ''CS304''\<rparr>) \<and>
   \<not> Authorize migration_20260210140845 lab ''stu2'' INSERT
     (EnrollmentRow \<lparr>ss_id = ''en2'', ss_student_id = ''stu2'', ss_subject_id = ''CS304''\<rparr>)"
  using enrollment_insert_delete [of lab "''stu2''"
      "\<lparr>ss_id = ''en2'', ss_student_id = ''stu2'', ss_subject_id = ''CS304''\<rparr>"]
  by (simp add: is_admin_def lab_def)







subsection \<open>The chain behind an evaluation\<close>

lemma resolved_subject_Some:
  assumes "primary_keys d"
    and "es \<in> set (experiment_submissions d)" and "e \<in> set (experiments d)"
    and "e_id e = es_experiment_id es" and "e_subject_id e \<in> set (map s_id (subjects d))"
  shows "resolved_subject d (es_id es) = Some (e_subject_id e)"
proof -
  from assms(1) have ds: "distinct (map es_id (experiment_submissions d))"
    and de: "distinct (map e_id (experiments d))"
    by (simp_all add: primary_keys_def)
  have 1: "find (\<lambda>x. es_id x = es_id es) (experiment_submissions d) = Some es"
    using find_distinct_key [OF ds assms(2)] .
  have 2: "find (\<lambda>x. e_id x = es_experiment_id es) (experiments d) = Some e"
    using find_distinct_key [OF de assms(3)] assms(4) by simp
  from assms(5) obtain s where "find (\<lambda>x. s_id x = e_subject_id e) (subjects d) = Some s"
    using find_key_None [of s_id "e_subject_id e" "subjects d"] by fastforce
  moreover from this have "s_id s = e_subject_id e"
    using find_key_Some by fastforce
  ultimately show ?thesis
    using 1 2 by (simp add: resolved_subject_def)
qed

lemma resolved_subject_SomeD:
  assumes "resolved_subject d k = Some subj"
  shows "\<exists>es \<in> set (experiment_submissions d). \<exists>e \<in> set (experiments d).
           es_id es = k \<and> e_id e = es_experiment_id es \<and> e_subject_id e = subj"
proof -
  from assms obtain es e s where
    1: "find (\<lambda>x. es_id x = k) (experiment_submissions d) = Some es" and
    2: "find (\<lambda>x. e_id x = es_experiment_id es) (experiments d) = Some e" and
    3: "find (\<lambda>x. s_id x = e_subject_id e) (subjects d) = Some s" and 4: "subj = s_id s"
    by (auto simp: resolved_subject_def split: option.splits)
  from find_key_Some [OF 1] find_key_Some [OF 2] find_key_Some [OF 3] 4
  show ?thesis by auto
qed

lemma resolved_subject_None:
  assumes "foreign_keys d" and "resolved_subject d k = None"
  shows "k \<notin> set (map es_id (experiment_submissions d))"
proof
  assume "k \<in> set (map es_id (experiment_submissions d))"
  then obtain es where 1: "find (\<lambda>x. es_id x = k) (experiment_submissions d) = Some es"
    using find_key_None [of es_id k "experiment_submissions d"] by fastforce
  then have "es \<in> set (experiment_submissions d)" using find_key_Some by fastforce
  with assms(1) have "es_experiment_id es \<in> set (map e_id (experiments d))"
    by (simp add: foreign_keys_def)
  then obtain e where 2: "find (\<lambda>x. e_id x = es_experiment_id es) (experiments d) = Some e"
    using find_key_None [of e_id "es_experiment_id es" "experiments d"] by fastforce
  then have "e \<in> set (experiments d)" using find_key_Some by fastforce
  with assms(1) have "e_subject_id e \<in> set (map s_id (subjects d))"
    by (simp add: foreign_keys_def)
  then obtain s where 3: "find (\<lambda>x. s_id x = e_subject_id e) (subjects d) = Some s"
    using find_key_None [of s_id "e_subject_id e" "subjects d"] by fastforce
  from 1 2 3 assms(2) show False by (simp add: resolved_subject_def)
qed

text \<open>
  C1. In a database that satisfies its primary and foreign keys, the insert of an
  evaluation passes the policy exactly when the caller is an administrator, or is the
  faculty member the evaluation names and is assigned to the subject reached from the
  evaluation through its submission and that submission's experiment. A caller who is not
  an administrator is denied when the chain does not resolve, and for every caller the
  insert statement then fails.
\<close>

theorem evaluations_insert_chain:
  assumes "primary_keys d" and "foreign_keys d"
  shows "(Authorize current_policies d p INSERT (EvaluationRow ev) \<longleftrightarrow>
            is_admin d p \<or>
            (ev_faculty_id ev = p \<and>
             (case resolved_subject d (ev_submission_id ev) of
                None \<Rightarrow> False
              | Some subj \<Rightarrow> is_faculty_for_subject d p subj))) \<and>
         (resolved_subject d (ev_submission_id ev) = None \<longrightarrow>
            (\<exists>err. insert_evaluation d p ev = Inl err))"
proof (intro conjI impI)
  let ?J = "\<exists>es \<in> set (experiment_submissions d). \<exists>e \<in> set (experiments d).
          es_id es = ev_submission_id ev \<and> e_id e = es_experiment_id es \<and>
          is_faculty_for_subject d p (e_subject_id e)"
  let ?C = "case resolved_subject d (ev_submission_id ev) of
                None \<Rightarrow> False
              | Some subj \<Rightarrow> is_faculty_for_subject d p subj"
  have "?J \<longleftrightarrow> ?C"
  proof
    assume ?J
    then obtain es e where es: "es \<in> set (experiment_submissions d)"
      and e: "e \<in> set (experiments d)" and k: "es_id es = ev_submission_id ev"
      "e_id e = es_experiment_id es" and f: "is_faculty_for_subject d p (e_subject_id e)"
      by blast
    from e assms(2) have "e_subject_id e \<in> set (map s_id (subjects d))"
      by (simp add: foreign_keys_def)
    from resolved_subject_Some [OF assms(1) es e k(2) this] k(1) f
    show ?C by simp
  next
    assume c: ?C
    then obtain subj where r: "resolved_subject d (ev_submission_id ev) = Some subj"
      and f: "is_faculty_for_subject d p subj"
      by (cases "resolved_subject d (ev_submission_id ev)") simp_all
    from resolved_subject_SomeD [OF r] f show ?J by blast
  qed
  then show "Authorize current_policies d p INSERT (EvaluationRow ev) \<longleftrightarrow>
            is_admin d p \<or> (ev_faculty_id ev = p \<and> ?C)"
    by (simp add: Authorize_evaluation evaluations_insert_plain)
next
  assume "resolved_subject d (ev_submission_id ev) = None"
  from resolved_subject_None [OF assms(2) this]
  show "\<exists>err. insert_evaluation d p ev = Inl err"
    by (simp add: insert_evaluation_def)
qed

lemma lab_primary_keys: "primary_keys lab"
  by (simp add: primary_keys_def lab_def)

lemma lab_foreign_keys: "foreign_keys lab"
  by (simp add: foreign_keys_def lab_def)

theorem evaluations_insert_chain_witness:
  "primary_keys lab \<and> foreign_keys lab \<and>
   resolved_subject lab ''sub1'' = Some ''CS101'' \<and>
   Authorize current_policies lab ''fac1'' INSERT
     (EvaluationRow \<lparr>ev_id = ''ev1'', ev_submission_id = ''sub1'', ev_faculty_id = ''fac1'',
        ev_marks = Some 85, ev_feedback = Some ''Good''\<rparr>) \<and>
   \<not> Authorize current_policies lab ''fac2'' INSERT
     (EvaluationRow \<lparr>ev_id = ''ev1'', ev_submission_id = ''sub1'', ev_faculty_id = ''fac2'',
        ev_marks = Some 85, ev_feedback = Some ''Good''\<rparr>) \<and>
   resolved_subject lab ''sub9'' = None \<and>
   \<not> Authorize current_policies lab ''fac1'' INSERT
     (EvaluationRow \<lparr>ev_id = ''ev1'', ev_submission_id = ''sub9'', ev_faculty_id = ''fac1'',
        ev_marks = Some 85, ev_feedback = Some ''Good''\<rparr>) \<and>
   (\<exists>err. insert_evaluation lab ''adm''
      \<lparr>ev_id = ''ev1'', ev_submission_id = ''sub9'', ev_faculty_id = ''adm'',
       ev_marks = Some 85, ev_feedback = Some ''Good''\<rparr> = Inl err)"
proof -
  have r1: "resolved_subject lab ''sub1'' = Some ''CS101''"
    by (simp add: resolved_subject_def lab_def)
  have r9: "resolved_subject lab ''sub9'' = None"
    by (simp add: resolved_subject_def lab_def)
  have n1: "\<not> is_admin lab ''fac1''" and n2: "\<not> is_admin lab ''fac2''"
    by (simp_all add: is_admin_def lab_def)
  have f1: "is_faculty_for_subject lab ''fac1'' ''CS101''"
    and f2: "\<not> is_faculty_for_subject lab ''fac2'' ''CS101''"
    by (simp_all add: is_faculty_for_subject_def lab_def)
  note w = evaluations_insert_chain [OF lab_primary_keys lab_foreign_keys]
  show ?thesis
    using lab_primary_keys lab_foreign_keys r1 r9 n1 n2 f1 f2
      w [of "''fac1''" "\<lparr>ev_id = ''ev1'', ev_submission_id = ''sub1'', ev_faculty_id = ''fac1'',
        ev_marks = Some 85, ev_feedback = Some ''Good''\<rparr>"]
      w [of "''fac2''" "\<lparr>ev_id = ''ev1'', ev_submission_id = ''sub1'', ev_faculty_id = ''fac2'',
        ev_marks = Some 85, ev_feedback = Some ''Good''\<rparr>"]
      w [of "''fac1''" "\<lparr>ev_id = ''ev1'', ev_submission_id = ''sub9'', ev_faculty_id = ''fac1'',
        ev_marks = Some 85, ev_feedback = Some ''Good''\<rparr>"]
      w [of "''adm''" "\<lparr>ev_id = ''ev1'', ev_submission_id = ''sub9'', ev_faculty_id = ''adm'',
        ev_marks = Some 85, ev_feedback = Some ''Good''\<rparr>"]
    by simp
qed

section \<open>The statements of the workflow\<close>

lemma insert_evaluation_InrD:
  assumes "insert_evaluation d uid r = Inr d'"
  shows "d' = d\<lparr>evaluations := evaluations d @ [r]\<rparr>"
    and "Authorize current_policies d uid INSERT (EvaluationRow r)"
    and "marks_check (ev_marks r)"
    and "ev_id r \<notin> set (map ev_id (evaluations d))"
    and "ev_submission_id r \<notin> set (map ev_submission_id (evaluations d))"
    and "ev_submission_id r \<in> set (map es_id (experiment_submissions d))"
    and "ev_faculty_id r \<in> set (users d)"
  using assms by (auto simp: insert_evaluation_def split: if_splits)

lemma update_evaluations_InrD:
  assumes "update_evaluations d uid wh m f = Inr d'"
  shows "\<exists>hit. d' = d\<lparr>evaluations :=
           map (\<lambda>r. if hit r then r\<lparr>ev_marks := Some m, ev_feedback := Some f\<rparr> else r)
             (evaluations d)\<rparr> \<and>
           ((\<exists>r \<in> set (evaluations d). hit r) \<longrightarrow> marks_check (Some m))"
  using assms unfolding update_evaluations_def Let_def
  by (auto split: if_splits)

lemma update_evaluations_keys:
  assumes "update_evaluations d uid wh m f = Inr d'"
  shows "map ev_id (evaluations d') = map ev_id (evaluations d)"
    and "map ev_submission_id (evaluations d') = map ev_submission_id (evaluations d)"
    and "map ev_faculty_id (evaluations d') = map ev_faculty_id (evaluations d)"
    and "experiment_submissions d' = experiment_submissions d"
  using update_evaluations_InrD [OF assms] by (auto simp: o_def)

lemma update_submissions_InrD:
  assumes "update_submissions d uid wh p = Inr d'"
  shows "\<exists>hit. d' = d\<lparr>experiment_submissions :=
           map (\<lambda>r. if hit r then apply_patch p r else r) (experiment_submissions d)\<rparr> \<and>
           (\<forall>r. hit r \<longrightarrow> submissions_update d uid r \<and> submissions_update d uid (apply_patch p r))"
  using assms unfolding update_submissions_def Let_def
  apply (simp split: if_splits add: Authorize_submission)
  apply (rule exI[of _ "\<lambda>r. r \<in> set (experiment_submissions d) \<and> wh r \<and> submissions_select d uid r \<and> submissions_update d uid r"])
  apply auto
  done

lemma update_submissions_evaluations:
  "evaluations (state_after d (update_submissions d uid wh p)) = evaluations d"
  "evaluations (ignore_error d (update_submissions d uid wh p)) = evaluations d"
  unfolding update_submissions_def Let_def state_after_def ignore_error_def by auto

lemma maybeSingle_SomeD: "maybeSingle xs = Some x \<Longrightarrow> xs = [x]"
  by (cases xs rule: maybeSingle.cases) auto

lemma submitEvaluation_InrD:
  assumes "submitEvaluation d u nid sid mk fb = Inr d'"
  shows "\<exists>m. mk = Some m \<and> 0 \<le> m \<and> m \<le> 100 \<and> trim fb \<noteq> [] \<and>
     ((sid \<in> set (map ev_submission_id (evaluations d)) \<and>
       (\<exists>hit. evaluations d' =
          map (\<lambda>r. if hit r then r\<lparr>ev_marks := Some m, ev_feedback := Some (trim fb)\<rparr> else r)
            (evaluations d))) \<or>
      (sid \<notin> set (map ev_submission_id (evaluations d)) \<and>
       nid \<notin> set (map ev_id (evaluations d)) \<and>
       evaluations d' = evaluations d @
         [\<lparr>ev_id = nid, ev_submission_id = sid, ev_faculty_id = u, ev_marks = Some m,
           ev_feedback = Some (trim fb)\<rparr>]))"
proof -
  from assms obtain m where mk: "mk = Some m" and m: "0 \<le> m" "m \<le> 100" and fb: "trim fb \<noteq> []"
    by (cases mk) (auto simp: submitEvaluation_def split: if_splits)
  let ?row = "\<lparr>ev_id = nid, ev_submission_id = sid, ev_faculty_id = u, ev_marks = Some m,
           ev_feedback = Some (trim fb)\<rparr>"
  let ?q = "maybeSingle (filter (\<lambda>r. ev_submission_id r = sid) (rls_evaluations d u))"
  show ?thesis
  proof (cases ?q)
    case None
    with assms mk m fb obtain d1 where i: "insert_evaluation d u ?row = Inr d1"
      and d': "d' = ignore_error d1 (update_submissions d1 u (\<lambda>r. es_id r = sid)
                           \<lparr>set_code = None, set_language = None,
                            set_status = Some ''evaluated''\<rparr>)"
      by (auto simp: submitEvaluation_def split: sum.splits)
    from insert_evaluation_InrD [OF i] d' mk m fb show ?thesis
      by (simp add: update_submissions_evaluations)
  next
    case (Some ex)
    with assms mk m fb obtain d1 where i: "update_evaluations d u (\<lambda>r. ev_id r = ev_id ex) m (trim fb) = Inr d1"
      and d': "d' = ignore_error d1 (update_submissions d1 u (\<lambda>r. es_id r = sid)
                           \<lparr>set_code = None, set_language = None,
                            set_status = Some ''evaluated''\<rparr>)"
      by (auto simp: submitEvaluation_def split: sum.splits)
    from maybeSingle_SomeD [OF Some] have "ex \<in> set (filter (\<lambda>r. ev_submission_id r = sid) (rls_evaluations d u))"
      by simp
    then have "sid \<in> set (map ev_submission_id (evaluations d))"
      by (auto simp: rls_evaluations_def)
    with update_evaluations_InrD [OF i] d' mk m fb show ?thesis
      by (auto simp add: update_submissions_evaluations)
  qed
qed

subsection \<open>One evaluation for a submission\<close>

lemma count_distinct_key:
  assumes "distinct (map f xs)" and "k \<in> set (map f xs)"
  shows "length (filter (\<lambda>r. f r = k) xs) = 1"
  using assms
proof (induction xs)
  case Nil
  then show ?case by simp
next
  case (Cons x xs)
  show ?case
  proof (cases "f x = k")
    case True
    with Cons.prems have "f x \<notin> f ` set xs" by simp
    with True have "\<forall>r \<in> set xs. f r \<noteq> k" by blast
    then have "filter (\<lambda>r. f r = k) xs = []"
      by (simp add: filter_empty_conv)
    with True show ?thesis by simp
  next
    case False
    with Cons show ?thesis by auto
  qed
qed

lemma map_key_update:
  "map ev_id (map (\<lambda>r. if hit r then r\<lparr>ev_marks := a, ev_feedback := b\<rparr> else r) xs) = map ev_id xs"
  "map ev_submission_id (map (\<lambda>r. if hit r then r\<lparr>ev_marks := a, ev_feedback := b\<rparr> else r) xs)
     = map ev_submission_id xs"
  by (induction xs) auto

lemma submitEvaluation_keys:
  assumes "submitEvaluation d u nid sid mk fb = Inr d'"
  shows "(sid \<in> set (map ev_submission_id (evaluations d)) \<and>
          map ev_id (evaluations d') = map ev_id (evaluations d) \<and>
          map ev_submission_id (evaluations d') = map ev_submission_id (evaluations d)) \<or>
         (sid \<notin> set (map ev_submission_id (evaluations d)) \<and>
          map ev_submission_id (evaluations d') = map ev_submission_id (evaluations d) @ [sid])"
  using submitEvaluation_InrD [OF assms] by (auto simp: map_key_update)

lemma update_evaluations_Inr:
  assumes "0 \<le> m" and "m \<le> 100" and "storable f"
  shows "update_evaluations d u wh m f =
     Inr (d\<lparr>evaluations :=
            map (\<lambda>r. if wh r \<and> evaluations_select d u r \<and> evaluations_update_policy d u r
                     then r\<lparr>ev_marks := Some m, ev_feedback := Some f\<rparr> else r)
              (evaluations d)\<rparr>)"
  using assms unfolding update_evaluations_def Let_def Authorize_evaluation
  by (auto simp add: evaluations_select_plain evaluations_update_policy_def marks_check_def)

lemma update_evaluations_unstorable:
  assumes "\<not> storable f"
  shows "update_evaluations d u wh m f = Inl UnstorableText"
  using assms by (simp add: update_evaluations_def)

lemma filter_distinct_key:
  assumes "distinct (map f xs)" and "x \<in> set xs"
  shows "filter (\<lambda>r. f r = f x) xs = [x]"
  using assms
proof (induction xs)
  case Nil
  then show ?case by simp
next
  case (Cons y ys)
  show ?case
  proof (cases "y = x")
    case True
    with Cons.prems have "f x \<notin> f ` set ys" by simp
    then have "\<And>r. r \<in> set ys \<Longrightarrow> f r \<noteq> f x" by (metis imageI)
    then have "filter (\<lambda>r. f r = f x) ys = []" by (simp add: filter_empty_conv)
    with True show ?thesis by simp
  next
    case False
    with Cons.prems have x: "x \<in> set ys" and "f y \<notin> f ` set ys" by simp_all
    then have "f y \<noteq> f x" by (metis imageI)
    with Cons.IH x Cons.prems show ?thesis by simp
  qed
qed

lemma submitEvaluation_ids:
  assumes "distinct (map ev_id (evaluations d))"
    and "submitEvaluation d u nid sid mk fb = Inr d'"
  shows "distinct (map ev_id (evaluations d'))"
proof -
  from submitEvaluation_InrD [OF assms(2)] obtain m where
    c: "(\<exists>hit. evaluations d' =
          map (\<lambda>r. if hit r then r\<lparr>ev_marks := Some m, ev_feedback := Some (trim fb)\<rparr> else r)
            (evaluations d)) \<or>
        (nid \<notin> set (map ev_id (evaluations d)) \<and>
         evaluations d' = evaluations d @
           [\<lparr>ev_id = nid, ev_submission_id = sid, ev_faculty_id = u, ev_marks = Some m,
             ev_feedback = Some (trim fb)\<rparr>])"
    by blast
  then show ?thesis
  proof
    assume "\<exists>hit. evaluations d' =
          map (\<lambda>r. if hit r then r\<lparr>ev_marks := Some m, ev_feedback := Some (trim fb)\<rparr> else r)
            (evaluations d)"
    then have "map ev_id (evaluations d') = map ev_id (evaluations d)"
      by (auto simp: map_key_update)
    with assms(1) show ?thesis by simp
  next
    assume "nid \<notin> set (map ev_id (evaluations d)) \<and>
         evaluations d' = evaluations d @
           [\<lparr>ev_id = nid, ev_submission_id = sid, ev_faculty_id = u, ev_marks = Some m,
             ev_feedback = Some (trim fb)\<rparr>]"
    with assms(1) show ?thesis by simp
  qed
qed

lemma submitEvaluation_second:
  assumes pk: "distinct (map ev_id (evaluations d))"
    and uq: "distinct (map ev_submission_id (evaluations d))"
    and mem: "sid \<in> set (map ev_submission_id (evaluations d))"
    and m: "0 \<le> m" "m \<le> 100" and fb: "trim fb \<noteq> []" "storable (trim fb)"
  shows "if is_admin d u \<or>
            (\<exists>r \<in> set (evaluations d). ev_submission_id r = sid \<and> ev_faculty_id r = u)
         then \<exists>d'. submitEvaluation d u nid sid (Some m) fb = Inr d' \<and>
                evaluations d' =
                  map (\<lambda>r. if ev_submission_id r = sid
                           then r\<lparr>ev_marks := Some m, ev_feedback := Some (trim fb)\<rparr> else r)
                    (evaluations d)
         else if \<exists>es \<in> set (experiment_submissions d). es_id es = sid \<and> es_student_id es = u
         then \<exists>d'. submitEvaluation d u nid sid (Some m) fb = Inr d' \<and>
                evaluations d' = evaluations d
         else if Authorize current_policies d u INSERT
                   (EvaluationRow \<lparr>ev_id = nid, ev_submission_id = sid, ev_faculty_id = u,
                      ev_marks = Some m, ev_feedback = Some (trim fb)\<rparr>)
         then submitEvaluation d u nid sid (Some m) fb = Inl UniqueViolation
         else submitEvaluation d u nid sid (Some m) fb = Inl RlsViolation"
proof -
  let ?new = "\<lambda>r. r\<lparr>ev_marks := Some m, ev_feedback := Some (trim fb)\<rparr>"
  let ?p = "\<lparr>set_code = None, set_language = None, set_status = Some ''evaluated''\<rparr>"
  from mem obtain row where row: "row \<in> set (evaluations d)" and k: "ev_submission_id row = sid"
    by auto
  from filter_distinct_key [OF uq row] k
  have one: "filter (\<lambda>r. ev_submission_id r = sid) (evaluations d) = [row]" by simp
  have only: "r = row" if "r \<in> set (evaluations d)" and "ev_submission_id r = sid" for r
  proof -
    from that have "r \<in> set (filter (\<lambda>r. ev_submission_id r = sid) (evaluations d))" by simp
    then show ?thesis unfolding one by simp
  qed
  have same_id: "r = row" if "r \<in> set (evaluations d)" and "ev_id r = ev_id row" for r
    using pk that row by (meson distinct_map inj_onD)
  have author: "(\<exists>r \<in> set (evaluations d). ev_submission_id r = sid \<and> ev_faculty_id r = u)
      = (ev_faculty_id row = u)"
    using only row k by blast
  have vis: "evaluations_select d u row =
      (is_admin d u \<or> ev_faculty_id row = u \<or>
       (\<exists>es \<in> set (experiment_submissions d). es_id es = sid \<and> es_student_id es = u))"
    by (simp add: evaluations_select_plain k)
  have "filter (\<lambda>r. ev_submission_id r = sid) (rls_evaluations d u) =
        filter (evaluations_select d u) (filter (\<lambda>r. ev_submission_id r = sid) (evaluations d))"
    unfolding rls_evaluations_def by (simp add: conj_commute)
  then have q: "filter (\<lambda>r. ev_submission_id r = sid) (rls_evaluations d u) =
      (if evaluations_select d u row then [row] else [])"
    unfolding one by simp
  show ?thesis
  proof (cases "evaluations_select d u row")
    case True
    with q have ms: "maybeSingle (filter (\<lambda>r. ev_submission_id r = sid) (rls_evaluations d u))
        = Some row" by simp
    let ?hit = "\<lambda>r. ev_id r = ev_id row \<and> evaluations_select d u r \<and>
                    evaluations_update_policy d u r"
    let ?d1 = "d\<lparr>evaluations := map (\<lambda>r. if ?hit r then ?new r else r) (evaluations d)\<rparr>"
    from update_evaluations_Inr [OF m fb(2)]
    have "update_evaluations d u (\<lambda>r. ev_id r = ev_id row) m (trim fb) = Inr ?d1" .
    with ms m fb have "submitEvaluation d u nid sid (Some m) fb =
        Inr (ignore_error ?d1 (update_submissions ?d1 u (\<lambda>r. es_id r = sid) ?p))"
      by (simp add: submitEvaluation_def)
    moreover
    have "evaluations (ignore_error ?d1 (update_submissions ?d1 u (\<lambda>r. es_id r = sid) ?p))
        = map (\<lambda>r. if ?hit r then ?new r else r) (evaluations d)"
      by (simp add: update_submissions_evaluations)
    ultimately have s: "\<exists>d'. submitEvaluation d u nid sid (Some m) fb = Inr d' \<and>
        evaluations d' = map (\<lambda>r. if ?hit r then ?new r else r) (evaluations d)"
      by blast
    show ?thesis
    proof (cases "is_admin d u \<or> ev_faculty_id row = u")
      case w: True
      have "map (\<lambda>r. if ?hit r then ?new r else r) (evaluations d) =
            map (\<lambda>r. if ev_submission_id r = sid then ?new r else r) (evaluations d)"
      proof (rule map_cong [OF refl])
        fix r assume r: "r \<in> set (evaluations d)"
        have "?hit r = (ev_submission_id r = sid)"
          using same_id [OF r] only [OF r] k w True
          by (auto simp: evaluations_update_policy_def)
        then show "(if ?hit r then ?new r else r) =
                   (if ev_submission_id r = sid then ?new r else r)" by simp
      qed
      with s have "\<exists>d'. submitEvaluation d u nid sid (Some m) fb = Inr d' \<and>
          evaluations d' =
            map (\<lambda>r. if ev_submission_id r = sid then ?new r else r) (evaluations d)"
        by (simp only:)
      moreover from w author have "is_admin d u \<or>
          (\<exists>r \<in> set (evaluations d). ev_submission_id r = sid \<and> ev_faculty_id r = u)"
        by blast
      ultimately show ?thesis by (simp only: if_True)
    next
      case w: False
      have "map (\<lambda>r. if ?hit r then ?new r else r) (evaluations d) = evaluations d"
      proof (rule map_idI)
        fix r assume r: "r \<in> set (evaluations d)"
        have "\<not> ?hit r"
          using same_id [OF r] w by (auto simp: evaluations_update_policy_def)
        then show "(if ?hit r then ?new r else r) = r" by (rule if_not_P)
      qed
      with s have "\<exists>d'. submitEvaluation d u nid sid (Some m) fb = Inr d' \<and>
          evaluations d' = evaluations d"
        by (simp only:)
      moreover from w author have no: "\<not> (is_admin d u \<or>
          (\<exists>r \<in> set (evaluations d). ev_submission_id r = sid \<and> ev_faculty_id r = u))"
        by blast
      moreover from w True vis
      have "\<exists>es \<in> set (experiment_submissions d). es_id es = sid \<and> es_student_id es = u"
        by blast
      ultimately show ?thesis by (simp only: if_True if_False)
    qed
  next
    case False
    with q have ms: "maybeSingle (filter (\<lambda>r. ev_submission_id r = sid) (rls_evaluations d u))
        = None" by simp
    from False vis author have no: "\<not> (is_admin d u \<or>
            (\<exists>r \<in> set (evaluations d). ev_submission_id r = sid \<and> ev_faculty_id r = u))"
      and no': "\<not> (\<exists>es \<in> set (experiment_submissions d). es_id es = sid \<and> es_student_id es = u)"
      by blast+
    from ms m fb mem have r: "submitEvaluation d u nid sid (Some m) fb =
        (if Authorize current_policies d u INSERT
              (EvaluationRow \<lparr>ev_id = nid, ev_submission_id = sid, ev_faculty_id = u,
                 ev_marks = Some m, ev_feedback = Some (trim fb)\<rparr>)
         then Inl UniqueViolation else Inl RlsViolation)"
      by (simp add: submitEvaluation_def insert_evaluation_def marks_check_def
          storable_opt_def)
    show ?thesis
    proof (cases "Authorize current_policies d u INSERT
              (EvaluationRow \<lparr>ev_id = nid, ev_submission_id = sid, ev_faculty_id = u,
                 ev_marks = Some m, ev_feedback = Some (trim fb)\<rparr>)")
      case True
      with r have "submitEvaluation d u nid sid (Some m) fb = Inl UniqueViolation"
        by (simp only: if_True)
      with no no' True show ?thesis by (simp only: if_True if_False)
    next
      case False
      with r have "submitEvaluation d u nid sid (Some m) fb = Inl RlsViolation"
        by (simp only: if_False)
      with no no' False show ?thesis by (simp only: if_True if_False)
    qed
  qed
qed

lemma submitEvaluation_rejected:
  "mk = None \<or> (\<exists>m. mk = Some m \<and> (m < 0 \<or> 100 < m)) \<Longrightarrow>
     submitEvaluation d u nid sid mk fb = Inl InvalidMarks"
  "(\<exists>m. mk = Some m \<and> 0 \<le> m \<and> m \<le> 100) \<Longrightarrow> trim fb = [] \<Longrightarrow>
     submitEvaluation d u nid sid mk fb = Inl MissingFeedback"
proof -
  show "submitEvaluation d u nid sid mk fb = Inl InvalidMarks"
    if "mk = None \<or> (\<exists>m. mk = Some m \<and> (m < 0 \<or> 100 < m))"
    using that by (auto simp: submitEvaluation_def)
  show "submitEvaluation d u nid sid mk fb = Inl MissingFeedback"
    if "\<exists>m. mk = Some m \<and> 0 \<le> m \<and> m \<le> 100" and "trim fb = []"
    using that by (auto simp: submitEvaluation_def)
qed

lemmas trim_simps = trim_def trimStart_def trimEnd_def strip.simps WhiteSpace_def
  storable_def storable_opt_def

lemmas policy_plain = Authorize_current evaluations_select_plain evaluations_insert_plain
  submissions_select_plain evaluations_update_policy_def submissions_update_def
  submissions_insert_def is_admin_def is_faculty_for_subject_def

lemma lab_unique_keys: "unique_keys lab"
  by (simp add: unique_keys_def lab_def)

lemma lab_marked:
  "submitEvaluation lab ''fac1'' ''ev1'' ''sub1'' (Some 85) ''Good'' = Inr marked"
  by (simp add: submitEvaluation_def trim_simps rls_evaluations_def
      insert_evaluation_def update_submissions_def ignore_error_def marks_check_def
      policy_plain marked_def lab_def)

lemma lab_peer:
  "submitCode lab ''fac3'' ''sub2'' ''exp1'' ''print(3)'' ''python'' = Inr peer" and
  "submitEvaluation peer ''fac1'' ''ev2'' ''sub2'' (Some 85) ''Good'' = Inr peer_marked"
  by (simp_all add: submitCode_def submitEvaluation_def trim_simps rls_evaluations_def
      rls_experiment_submissions_def insert_submission_def insert_evaluation_def
      update_submissions_def ignore_error_def marks_check_def status_check_def
      policy_plain peer_marked_def peer_def lab_def)

text \<open>
  C5, as stated: a second creation for the same submission either fails with the conflict
  or updates the existing row. In \<open>peer_marked\<close> the submission \<open>sub2\<close> belongs to
  \<open>fac3\<close> and has the evaluation that \<open>fac1\<close> created, with the marks 85. \<open>fac3\<close> is
  assigned to the subject and passes the insert policy; \<open>fac3\<close> sees the evaluation as
  the student of the submission, so the page updates, and the update policy passes the
  row over: the call succeeds and the evaluation is as it was.
\<close>

theorem evaluation_created_once_counterexample:
  "Authorize current_policies peer_marked ''fac3'' INSERT
     (EvaluationRow \<lparr>ev_id = ''ev3'', ev_submission_id = ''sub2'', ev_faculty_id = ''fac3'',
        ev_marks = Some 100, ev_feedback = Some ''Best''\<rparr>) \<and>
   map ev_marks (evaluations peer_marked) = [Some 85] \<and>
   \<not> isl (submitEvaluation peer_marked ''fac3'' ''ev3'' ''sub2'' (Some 100) ''Best'') \<and>
   evaluations (state_after peer_marked
      (submitEvaluation peer_marked ''fac3'' ''ev3'' ''sub2'' (Some 100) ''Best'')) =
     evaluations peer_marked"
  by (simp add: submitEvaluation_def trim_simps rls_evaluations_def update_evaluations_def
      update_submissions_def ignore_error_def state_after_def marks_check_def
      status_check_def apply_patch_def policy_plain peer_marked_def peer_def lab_def)

text \<open>
  C5, amended. In a database whose primary and unique keys hold, once
  \<^verbatim>\<open>submitEvaluation\<close> has succeeded for a submission, the table holds exactly one
  evaluation of that submission, and still does after any second call for it, whoever
  makes it and with whatever marks and feedback; a second call that succeeds leaves the
  keys of the table as they were, and an insert for the submission issued after a stale
  read fails. A second call with marks from 0 to 100 and a feedback that is not blank and
  can be stored
  \<^item> rewrites the marks and the feedback of the existing row, and nothing else, when the
    caller is an administrator or the author of that row;
  \<^item> succeeds and leaves the evaluations as they were when the caller sees the row only
    as the student of the submission;
  \<^item> fails otherwise: with the violation of \<^verbatim>\<open>UNIQUE(submission_id)\<close> when the caller
    passes the insert policy, with the violation of that policy when not.

  A second call with other marks or with a blank feedback is stopped by the page before
  any write.
\<close>

theorem evaluation_created_once:
  assumes "primary_keys d" and "unique_keys d"
    and "submitEvaluation d u1 id1 sid m1 f1 = Inr d1"
  shows "length (filter (\<lambda>r. ev_submission_id r = sid) (evaluations d1)) = 1 \<and>
     length (filter (\<lambda>r. ev_submission_id r = sid)
        (evaluations (state_after d1 (submitEvaluation d1 u2 id2 sid m2 f2)))) = 1 \<and>
     (\<forall>d2. submitEvaluation d1 u2 id2 sid m2 f2 = Inr d2 \<longrightarrow>
        map ev_id (evaluations d2) = map ev_id (evaluations d1) \<and>
        map ev_submission_id (evaluations d2) = map ev_submission_id (evaluations d1)) \<and>
     (\<forall>r. ev_submission_id r = sid \<longrightarrow> (\<exists>e. insert_evaluation d1 u2 r = Inl e)) \<and>
     (\<forall>m. m2 = Some m \<and> 0 \<le> m \<and> m \<le> 100 \<and> trim f2 \<noteq> [] \<and> storable (trim f2) \<longrightarrow>
        (if is_admin d1 u2 \<or>
            (\<exists>r \<in> set (evaluations d1). ev_submission_id r = sid \<and> ev_faculty_id r = u2)
         then \<exists>d2. submitEvaluation d1 u2 id2 sid m2 f2 = Inr d2 \<and>
                evaluations d2 =
                  map (\<lambda>r. if ev_submission_id r = sid
                           then r\<lparr>ev_marks := Some m, ev_feedback := Some (trim f2)\<rparr> else r)
                    (evaluations d1)
         else if \<exists>es \<in> set (experiment_submissions d1). es_id es = sid \<and> es_student_id es = u2
         then \<exists>d2. submitEvaluation d1 u2 id2 sid m2 f2 = Inr d2 \<and>
                evaluations d2 = evaluations d1
         else if Authorize current_policies d1 u2 INSERT
                   (EvaluationRow \<lparr>ev_id = id2, ev_submission_id = sid, ev_faculty_id = u2,
                      ev_marks = Some m, ev_feedback = Some (trim f2)\<rparr>)
         then submitEvaluation d1 u2 id2 sid m2 f2 = Inl UniqueViolation
         else submitEvaluation d1 u2 id2 sid m2 f2 = Inl RlsViolation)) \<and>
     (m2 = None \<or> (\<exists>m. m2 = Some m \<and> (m < 0 \<or> 100 < m)) \<longrightarrow>
        submitEvaluation d1 u2 id2 sid m2 f2 = Inl InvalidMarks) \<and>
     ((\<exists>m. m2 = Some m \<and> 0 \<le> m \<and> m \<le> 100) \<and> trim f2 = [] \<longrightarrow>
        submitEvaluation d1 u2 id2 sid m2 f2 = Inl MissingFeedback)"
proof -
  from assms(2) have dist: "distinct (map ev_submission_id (evaluations d))"
    by (simp add: unique_keys_def)
  from assms(1) have "distinct (map ev_id (evaluations d))"
    by (simp add: primary_keys_def)
  from submitEvaluation_ids [OF this assms(3)]
  have pk1: "distinct (map ev_id (evaluations d1))" .
  have "distinct (map ev_submission_id (evaluations d1)) \<and>
        sid \<in> set (map ev_submission_id (evaluations d1))"
    using submitEvaluation_keys [OF assms(3)]
  proof (elim disjE conjE)
    assume "sid \<in> set (map ev_submission_id (evaluations d))"
      and "map ev_submission_id (evaluations d1) = map ev_submission_id (evaluations d)"
    with dist show ?thesis by metis
  next
    assume "sid \<notin> set (map ev_submission_id (evaluations d))"
      and e: "map ev_submission_id (evaluations d1) = map ev_submission_id (evaluations d) @ [sid]"
    with dist have "distinct (map ev_submission_id (evaluations d) @ [sid])" by simp
    moreover have "sid \<in> set (map ev_submission_id (evaluations d) @ [sid])" by simp
    ultimately show ?thesis unfolding e by blast
  qed
  then have d1: "distinct (map ev_submission_id (evaluations d1))"
    and mem: "sid \<in> set (map ev_submission_id (evaluations d1))"
    by blast+
  have one: "length (filter (\<lambda>r. ev_submission_id r = sid) (evaluations d1)) = 1"
    using count_distinct_key [OF d1 mem] .
  have keep: "map ev_id (evaluations d2) = map ev_id (evaluations d1) \<and>
        map ev_submission_id (evaluations d2) = map ev_submission_id (evaluations d1)"
    if "submitEvaluation d1 u2 id2 sid m2 f2 = Inr d2" for d2
    using submitEvaluation_keys [OF that] mem by blast
  have after: "length (filter (\<lambda>r. ev_submission_id r = sid)
        (evaluations (state_after d1 (submitEvaluation d1 u2 id2 sid m2 f2)))) = 1"
  proof (cases "submitEvaluation d1 u2 id2 sid m2 f2")
    case (Inl e)
    then show ?thesis using one by (simp add: state_after_def)
  next
    case (Inr d2)
    from keep [OF Inr] d1 mem
    have "distinct (map ev_submission_id (evaluations d2))"
      and "sid \<in> set (map ev_submission_id (evaluations d2))" by metis+
    from count_distinct_key [OF this] Inr show ?thesis by (simp add: state_after_def)
  qed
  have stale: "\<exists>e. insert_evaluation d1 u2 r = Inl e" if "ev_submission_id r = sid" for r
    using mem that by (simp add: insert_evaluation_def)
  have second: "if is_admin d1 u2 \<or>
            (\<exists>r \<in> set (evaluations d1). ev_submission_id r = sid \<and> ev_faculty_id r = u2)
         then \<exists>d2. submitEvaluation d1 u2 id2 sid m2 f2 = Inr d2 \<and>
                evaluations d2 =
                  map (\<lambda>r. if ev_submission_id r = sid
                           then r\<lparr>ev_marks := Some m, ev_feedback := Some (trim f2)\<rparr> else r)
                    (evaluations d1)
         else if \<exists>es \<in> set (experiment_submissions d1). es_id es = sid \<and> es_student_id es = u2
         then \<exists>d2. submitEvaluation d1 u2 id2 sid m2 f2 = Inr d2 \<and>
                evaluations d2 = evaluations d1
         else if Authorize current_policies d1 u2 INSERT
                   (EvaluationRow \<lparr>ev_id = id2, ev_submission_id = sid, ev_faculty_id = u2,
                      ev_marks = Some m, ev_feedback = Some (trim f2)\<rparr>)
         then submitEvaluation d1 u2 id2 sid m2 f2 = Inl UniqueViolation
         else submitEvaluation d1 u2 id2 sid m2 f2 = Inl RlsViolation"
    if "m2 = Some m \<and> 0 \<le> m \<and> m \<le> 100 \<and> trim f2 \<noteq> [] \<and> storable (trim f2)" for m
    using submitEvaluation_second [OF pk1 d1 mem, of m f2 u2 id2] that by simp
  note rej = submitEvaluation_rejected [where mk = m2 and fb = f2 and d = d1 and u = u2
      and nid = id2 and sid = sid]
  from one after keep stale second rej show ?thesis by blast
qed

lemma lab_primary_unique: "primary_keys lab" "unique_keys lab"
  by (simp_all add: primary_keys_def unique_keys_def lab_def)

theorem evaluation_created_once_witness:
  "primary_keys lab \<and> unique_keys lab \<and>
   submitEvaluation lab ''fac1'' ''ev1'' ''sub1'' (Some 85) ''Good'' = Inr marked \<and>
   length (filter (\<lambda>r. ev_submission_id r = ''sub1'') (evaluations marked)) = 1 \<and>
   submitEvaluation marked ''fac3'' ''ev2'' ''sub1'' (Some 70) ''Fair'' = Inl UniqueViolation \<and>
   (\<exists>d2. submitEvaluation marked ''fac1'' ''ev2'' ''sub1'' (Some 70) ''Fair'' = Inr d2 \<and>
      evaluations d2 =
        [\<lparr>ev_id = ''ev1'', ev_submission_id = ''sub1'', ev_faculty_id = ''fac1'',
          ev_marks = Some 70, ev_feedback = Some ''Fair''\<rparr>]) \<and>
   (\<exists>d2. submitEvaluation marked ''stu1'' ''ev2'' ''sub1'' (Some 70) ''Fair'' = Inr d2 \<and>
      evaluations d2 = evaluations marked) \<and>
   submitEvaluation marked ''fac2'' ''ev2'' ''sub1'' (Some 70) ''Fair'' = Inl RlsViolation \<and>
   submitEvaluation marked ''fac3'' ''ev2'' ''sub1'' (Some 70) [CHR 0xC2, CHR 0xA0] =
     Inl MissingFeedback"
proof -
  note w = evaluation_created_once [OF lab_primary_unique lab_marked]
  have t: "trim ''Fair'' = ''Fair''" "storable ''Fair''"
    by (simp_all add: trim_simps)
  have 1: "length (filter (\<lambda>r. ev_submission_id r = ''sub1'') (evaluations marked)) = 1"
    using w by blast
  have 3: "submitEvaluation marked ''fac3'' ''ev2'' ''sub1'' (Some 70) ''Fair'' =
      Inl UniqueViolation"
    using w [of "''fac3''" "''ev2''" "Some 70" "''Fair''"] t
    by (simp add: policy_plain marked_def lab_def)
  have 4: "\<exists>d2. submitEvaluation marked ''fac1'' ''ev2'' ''sub1'' (Some 70) ''Fair'' = Inr d2 \<and>
      evaluations d2 =
        [\<lparr>ev_id = ''ev1'', ev_submission_id = ''sub1'', ev_faculty_id = ''fac1'',
          ev_marks = Some 70, ev_feedback = Some ''Fair''\<rparr>]"
    using w [of "''fac1''" "''ev2''" "Some 70" "''Fair''"] t
    by (simp add: policy_plain marked_def lab_def)
  have 5: "\<exists>d2. submitEvaluation marked ''stu1'' ''ev2'' ''sub1'' (Some 70) ''Fair'' = Inr d2 \<and>
      evaluations d2 = evaluations marked"
    using w [of "''stu1''" "''ev2''" "Some 70" "''Fair''"] t
    by (simp add: policy_plain marked_def lab_def)
  have 6: "submitEvaluation marked ''fac2'' ''ev2'' ''sub1'' (Some 70) ''Fair'' =
      Inl RlsViolation"
    using w [of "''fac2''" "''ev2''" "Some 70" "''Fair''"] t
    by (simp add: policy_plain marked_def lab_def)
  have b: "trim [CHR 0xC2, CHR 0xA0] = []"
    by (simp add: trim_simps)
  have 7: "submitEvaluation marked ''fac3'' ''ev2'' ''sub1'' (Some 70) [CHR 0xC2, CHR 0xA0] =
      Inl MissingFeedback"
    using w [of "''fac3''" "''ev2''" "Some 70" "[CHR 0xC2, CHR 0xA0]"] b
    by simp
  from lab_primary_unique lab_marked 1 3 4 5 6 7 show ?thesis by simp
qed

subsection \<open>The range of the marks\<close>

lemma insert_evaluation_bad_marks:
  assumes "m < 0 \<or> 100 < m"
  shows "\<exists>e. insert_evaluation d u (r\<lparr>ev_marks := Some m\<rparr>) = Inl e"
  using assms by (auto simp: insert_evaluation_def marks_check_def)

lemma update_evaluations_bad_marks:
  assumes "m < 0 \<or> 100 < m"
  shows "evaluations (state_after d (update_evaluations d u wh m f)) = evaluations d"
proof (cases "update_evaluations d u wh m f")
  case (Inl e)
  then show ?thesis by (simp add: state_after_def)
next
  case (Inr d')
  from update_evaluations_InrD [OF Inr] obtain hit where
    d': "d' = d\<lparr>evaluations :=
           map (\<lambda>r. if hit r then r\<lparr>ev_marks := Some m, ev_feedback := Some f\<rparr> else r)
             (evaluations d)\<rparr>"
    and ok: "(\<exists>r \<in> set (evaluations d). hit r) \<longrightarrow> marks_check (Some m)"
    by blast
  from ok assms have "\<forall>r \<in> set (evaluations d). \<not> hit r"
    by (auto simp: marks_check_def)
  then have "map (\<lambda>r. if hit r then r\<lparr>ev_marks := Some m, ev_feedback := Some f\<rparr> else r)
             (evaluations d) = evaluations d"
    by (simp add: map_idI)
  with d' Inr show ?thesis by (simp add: state_after_def)
qed

lemma insert_evaluation_isl:
  assumes "marks_check (ev_marks r)"
  shows "isl (insert_evaluation d u r) \<longleftrightarrow>
     \<not> storable_opt (ev_feedback r) \<or>
     \<not> evaluations_insert d u r \<or>
     ev_id r \<in> set (map ev_id (evaluations d)) \<or>
     ev_submission_id r \<in> set (map ev_submission_id (evaluations d)) \<or>
     ev_submission_id r \<notin> set (map es_id (experiment_submissions d)) \<or>
     ev_faculty_id r \<notin> set (users d)"
  using assms by (simp add: insert_evaluation_def Authorize_evaluation)

lemma submitEvaluation_valid_isl:
  assumes "0 \<le> m" "m \<le> 100" "0 \<le> m'" "m' \<le> 100"
  shows "isl (submitEvaluation d u nid sid (Some m) fb) =
         isl (submitEvaluation d u nid sid (Some m') fb)"
proof (cases "trim fb = []")
  case True
  with assms show ?thesis by (simp add: submitEvaluation_def)
next
  case fb: False
  show ?thesis
  proof (cases "maybeSingle (filter (\<lambda>r. ev_submission_id r = sid) (rls_evaluations d u))")
    case None
    let ?r = "\<lambda>k. \<lparr>ev_id = nid, ev_submission_id = sid, ev_faculty_id = u, ev_marks = Some k,
                  ev_feedback = Some (trim fb)\<rparr>"
    have "isl (insert_evaluation d u (?r m)) = isl (insert_evaluation d u (?r m'))"
      using assms by (simp add: insert_evaluation_isl marks_check_def evaluations_insert_plain)
    with None fb assms show ?thesis
      by (auto simp: submitEvaluation_def split: sum.splits)
  next
    case (Some ex)
    show ?thesis
    proof (cases "storable (trim fb)")
      case True
      from update_evaluations_Inr [OF assms(1,2) True] update_evaluations_Inr [OF assms(3,4) True]
      obtain d1 d2 where
        "update_evaluations d u (\<lambda>r. ev_id r = ev_id ex) m (trim fb) = Inr d1"
        "update_evaluations d u (\<lambda>r. ev_id r = ev_id ex) m' (trim fb) = Inr d2"
        by blast
      with Some fb assms show ?thesis by (simp add: submitEvaluation_def)
    next
      case False
      from update_evaluations_unstorable [OF False] Some fb assms show ?thesis
        by (simp add: submitEvaluation_def)
    qed
  qed
qed

lemma submitEvaluation_not_marks_error:
  assumes "0 \<le> m" "m \<le> 100"
  shows "submitEvaluation d u nid sid (Some m) fb \<noteq> Inl InvalidMarks"
    and "submitEvaluation d u nid sid (Some m) fb \<noteq> Inl CheckViolation"
proof -
  have "submitEvaluation d u nid sid (Some m) fb \<noteq> Inl InvalidMarks \<and>
        submitEvaluation d u nid sid (Some m) fb \<noteq> Inl CheckViolation"
  proof (cases "trim fb = []")
    case True
    with assms show ?thesis by (simp add: submitEvaluation_def)
  next
    case fb: False
    show ?thesis
    proof (cases "maybeSingle (filter (\<lambda>r. ev_submission_id r = sid) (rls_evaluations d u))")
      case None
      with fb assms show ?thesis
        by (auto simp: submitEvaluation_def insert_evaluation_def marks_check_def
            split: sum.splits if_splits)
    next
      case (Some ex)
      show ?thesis
      proof (cases "storable (trim fb)")
        case True
        from update_evaluations_Inr [OF assms True] obtain d1 where
          "update_evaluations d u (\<lambda>r. ev_id r = ev_id ex) m (trim fb) = Inr d1" by blast
        with Some fb assms show ?thesis by (simp add: submitEvaluation_def)
      next
        case False
        from update_evaluations_unstorable [OF False] Some fb assms show ?thesis
          by (simp add: submitEvaluation_def)
      qed
    qed
  qed
  then show "submitEvaluation d u nid sid (Some m) fb \<noteq> Inl InvalidMarks"
    and "submitEvaluation d u nid sid (Some m) fb \<noteq> Inl CheckViolation" by blast+
qed

lemma submitEvaluation_written:
  assumes "submitEvaluation d u nid sid mk fb = Inr d'"
  shows "\<exists>k. mk = Some k \<and> 0 \<le> k \<and> k \<le> 100 \<and>
           (\<forall>r \<in> set (evaluations d'). r \<notin> set (evaluations d) \<longrightarrow> ev_marks r = Some k)"
proof -
  from submitEvaluation_InrD [OF assms] obtain m where
    m: "mk = Some m" "0 \<le> m" "m \<le> 100" and
    c: "(\<exists>hit. evaluations d' =
          map (\<lambda>r. if hit r then r\<lparr>ev_marks := Some m, ev_feedback := Some (trim fb)\<rparr> else r)
            (evaluations d)) \<or>
        evaluations d' = evaluations d @
         [\<lparr>ev_id = nid, ev_submission_id = sid, ev_faculty_id = u, ev_marks = Some m,
           ev_feedback = Some (trim fb)\<rparr>]"
    by blast
  from c have "\<forall>r \<in> set (evaluations d'). r \<notin> set (evaluations d) \<longrightarrow> ev_marks r = Some m"
  proof
    assume "\<exists>hit. evaluations d' =
          map (\<lambda>r. if hit r then r\<lparr>ev_marks := Some m, ev_feedback := Some (trim fb)\<rparr> else r)
            (evaluations d)"
    then show ?thesis by (auto split: if_splits)
  next
    assume "evaluations d' = evaluations d @
         [\<lparr>ev_id = nid, ev_submission_id = sid, ev_faculty_id = u, ev_marks = Some m,
           ev_feedback = Some (trim fb)\<rparr>]"
    then show ?thesis by auto
  qed
  with m show ?thesis by blast
qed

text \<open>
  C6. \<^verbatim>\<open>submitEvaluation\<close> rejects marks below 0 or above 100 (and \<^verbatim>\<open>NaN\<close>) before any
  write; the table's \<^verbatim>\<open>CHECK\<close> rejects the insert of such marks and lets no update store
  them. Marks from 0 to 100 pass both checks, and whether the call then succeeds does not
  depend on which of them is given. A call that succeeded was given marks from 0 to 100,
  and every row it wrote holds them.
\<close>

theorem marks_bounds:
  "(m < 0 \<or> 100 < m \<longrightarrow>
      submitEvaluation d u nid sid (Some m) fb = Inl InvalidMarks \<and>
      (\<exists>e. insert_evaluation d u (r\<lparr>ev_marks := Some m\<rparr>) = Inl e) \<and>
      evaluations (state_after d (update_evaluations d u wh m fb)) = evaluations d) \<and>
   submitEvaluation d u nid sid None fb = Inl InvalidMarks \<and>
   (0 \<le> m \<and> m \<le> 100 \<longrightarrow>
      marks_check (Some m) \<and>
      submitEvaluation d u nid sid (Some m) fb \<noteq> Inl InvalidMarks \<and>
      submitEvaluation d u nid sid (Some m) fb \<noteq> Inl CheckViolation \<and>
      (\<forall>m'. 0 \<le> m' \<and> m' \<le> 100 \<longrightarrow>
         isl (submitEvaluation d u nid sid (Some m') fb) =
         isl (submitEvaluation d u nid sid (Some m) fb))) \<and>
   (submitEvaluation d u nid sid mk fb = Inr d' \<longrightarrow>
      (\<exists>k. mk = Some k \<and> 0 \<le> k \<and> k \<le> 100 \<and>
         (\<forall>r \<in> set (evaluations d'). r \<notin> set (evaluations d) \<longrightarrow> ev_marks r = Some k)))"
proof (intro conjI impI allI)
  assume "m < 0 \<or> 100 < m"
  then show "submitEvaluation d u nid sid (Some m) fb = Inl InvalidMarks"
    by (auto simp: submitEvaluation_def)
next
  assume "m < 0 \<or> 100 < m"
  then show "\<exists>e. insert_evaluation d u (r\<lparr>ev_marks := Some m\<rparr>) = Inl e"
    by (rule insert_evaluation_bad_marks)
next
  assume "m < 0 \<or> 100 < m"
  then show "evaluations (state_after d (update_evaluations d u wh m fb)) = evaluations d"
    by (rule update_evaluations_bad_marks)
next
  show "submitEvaluation d u nid sid None fb = Inl InvalidMarks"
    by (simp add: submitEvaluation_def)
next
  assume "0 \<le> m \<and> m \<le> 100"
  then show "marks_check (Some m)" by (simp add: marks_check_def)
next
  assume "0 \<le> m \<and> m \<le> 100"
  then show "submitEvaluation d u nid sid (Some m) fb \<noteq> Inl InvalidMarks"
    using submitEvaluation_not_marks_error(1) by blast
next
  assume "0 \<le> m \<and> m \<le> 100"
  then show "submitEvaluation d u nid sid (Some m) fb \<noteq> Inl CheckViolation"
    using submitEvaluation_not_marks_error(2) by blast
next
  fix m' :: int
  assume "0 \<le> m \<and> m \<le> 100" and "0 \<le> m' \<and> m' \<le> 100"
  then show "isl (submitEvaluation d u nid sid (Some m') fb) =
         isl (submitEvaluation d u nid sid (Some m) fb)"
    using submitEvaluation_valid_isl by blast
next
  assume "submitEvaluation d u nid sid mk fb = Inr d'"
  then show "\<exists>k. mk = Some k \<and> 0 \<le> k \<and> k \<le> 100 \<and>
         (\<forall>r \<in> set (evaluations d'). r \<notin> set (evaluations d) \<longrightarrow> ev_marks r = Some k)"
    by (rule submitEvaluation_written)
qed

lemma lab_marks_0:
  "submitEvaluation lab ''fac1'' ''ev1'' ''sub1'' (Some 0) ''Poor'' =
     Inr (lab\<lparr>evaluations :=
           [\<lparr>ev_id = ''ev1'', ev_submission_id = ''sub1'', ev_faculty_id = ''fac1'',
             ev_marks = Some 0, ev_feedback = Some ''Poor''\<rparr>]\<rparr>)"
  by (simp add: submitEvaluation_def trim_simps rls_evaluations_def
      insert_evaluation_def update_submissions_def ignore_error_def marks_check_def
      policy_plain lab_def)

lemma lab_marks_100:
  "submitEvaluation lab ''fac1'' ''ev1'' ''sub1'' (Some 100) ''Best'' =
     Inr (lab\<lparr>evaluations :=
           [\<lparr>ev_id = ''ev1'', ev_submission_id = ''sub1'', ev_faculty_id = ''fac1'',
             ev_marks = Some 100, ev_feedback = Some ''Best''\<rparr>]\<rparr>)"
  by (simp add: submitEvaluation_def trim_simps rls_evaluations_def
      insert_evaluation_def update_submissions_def ignore_error_def marks_check_def
      policy_plain lab_def)

theorem marks_bounds_witness:
  "submitEvaluation lab ''fac1'' ''ev1'' ''sub1'' (Some (- 1)) ''Poor'' = Inl InvalidMarks \<and>
   submitEvaluation lab ''fac1'' ''ev1'' ''sub1'' (Some 101) ''Best'' = Inl InvalidMarks \<and>
   (\<exists>d'. submitEvaluation lab ''fac1'' ''ev1'' ''sub1'' (Some 0) ''Poor'' = Inr d' \<and>
      map ev_marks (evaluations d') = [Some 0]) \<and>
   (\<exists>d'. submitEvaluation lab ''fac1'' ''ev1'' ''sub1'' (Some 100) ''Best'' = Inr d' \<and>
      map ev_marks (evaluations d') = [Some 100]) \<and>
   (\<exists>k. Some 100 = Some k \<and> (0::int) \<le> k \<and> k \<le> 100)"
  using marks_bounds [of "- 1" lab "''fac1''" "''ev1''" "''sub1''" "''Poor''" _ _ "Some 0"]
    marks_bounds [of 101 lab "''fac1''" "''ev1''" "''sub1''" "''Best''" _ _ "Some 100"]
    marks_bounds [of 100 lab "''fac1''" "''ev1''" "''sub1''" "''Best''" _ _ "Some 100"]
    lab_marks_0 lab_marks_100
  by simp

subsection \<open>Who can change the status of a submission\<close>

lemma filter_map_untouched:
  assumes "\<And>r. r \<in> set xs \<Longrightarrow> hit r \<Longrightarrow> \<not> Q r \<and> \<not> Q (g r)"
  shows "filter Q (map (\<lambda>r. if hit r then g r else r) xs) = filter Q xs"
  using assms by (induction xs) auto

lemma update_submissions_others:
  assumes "\<not> is_admin d uid" and "update_submissions d uid wh p = Inr d'"
  shows "filter (\<lambda>r. es_student_id r \<noteq> uid) (experiment_submissions d') =
         filter (\<lambda>r. es_student_id r \<noteq> uid) (experiment_submissions d)"
proof -
  from update_submissions_InrD [OF assms(2)] obtain hit where
    d': "d' = d\<lparr>experiment_submissions :=
           map (\<lambda>r. if hit r then apply_patch p r else r) (experiment_submissions d)\<rparr>"
    and h: "\<forall>r. hit r \<longrightarrow> submissions_update d uid r \<and> submissions_update d uid (apply_patch p r)"
    by blast
  from h assms(1) have "\<And>r. hit r \<Longrightarrow>
      \<not> es_student_id r \<noteq> uid \<and> \<not> es_student_id (apply_patch p r) \<noteq> uid"
    by (simp add: submissions_update_def)
  then show ?thesis unfolding d' by (simp add: filter_map_untouched)
qed

lemma update_submissions_others_after:
  assumes "\<not> is_admin d uid"
  shows "filter (\<lambda>r. es_student_id r \<noteq> uid)
           (experiment_submissions (ignore_error d (update_submissions d uid wh p))) =
         filter (\<lambda>r. es_student_id r \<noteq> uid) (experiment_submissions d)"
  using update_submissions_others [OF assms]
  by (cases "update_submissions d uid wh p") (simp_all add: ignore_error_def)

lemma insert_submission_InrD:
  assumes "insert_submission d uid r = Inr d'"
  shows "d' = d\<lparr>experiment_submissions := experiment_submissions d @ [r]\<rparr>"
    and "es_student_id r = uid"
  using assms
  by (auto simp: insert_submission_def Authorize_submission submissions_insert_def
      split: if_splits)

lemma submitCode_others:
  assumes "\<not> is_admin d uid" and "submitCode d uid nid eid code lang = Inr d'"
  shows "filter (\<lambda>r. es_student_id r \<noteq> uid) (experiment_submissions d') =
         filter (\<lambda>r. es_student_id r \<noteq> uid) (experiment_submissions d)"
proof (cases "maybeSingle (filter (\<lambda>r. es_student_id r = uid \<and> es_experiment_id r = eid)
                (rls_experiment_submissions d uid))")
  case None
  with assms(2) have "insert_submission d uid
            \<lparr>es_id = nid, es_experiment_id = eid, es_student_id = uid,
             es_code = Some code, es_language = Some lang, es_status = ''submitted''\<rparr> = Inr d'"
    by (simp add: submitCode_def)
  from insert_submission_InrD [OF this] show ?thesis by simp
next
  case (Some ex)
  with assms(2) have "update_submissions d uid (\<lambda>r. es_id r = es_id ex)
            \<lparr>set_code = Some code, set_language = Some lang, set_status = Some ''submitted''\<rparr>
          = Inr d'"
    by (simp add: submitCode_def)
  from update_submissions_others [OF assms(1) this] show ?thesis .
qed

lemma submitEvaluation_others:
  assumes "\<not> is_admin d uid" and "submitEvaluation d uid nid sid mk fb = Inr d'"
  shows "filter (\<lambda>r. es_student_id r \<noteq> uid) (experiment_submissions d') =
         filter (\<lambda>r. es_student_id r \<noteq> uid) (experiment_submissions d)"
proof -
  let ?p = "\<lparr>set_code = None, set_language = None, set_status = Some ''evaluated''\<rparr>"
  from assms(2) obtain m where mk: "mk = Some m" "\<not> (m < 0 \<or> m > 100)" "trim fb \<noteq> []"
    by (cases mk) (auto simp: submitEvaluation_def split: if_splits)
  have "\<exists>d1. profiles d1 = profiles d \<and> experiment_submissions d1 = experiment_submissions d \<and>
          d' = ignore_error d1 (update_submissions d1 uid (\<lambda>r. es_id r = sid) ?p)"
  proof (cases "maybeSingle (filter (\<lambda>r. ev_submission_id r = sid) (rls_evaluations d uid))")
    case None
    with assms(2) mk obtain d1 where
      i: "insert_evaluation d uid \<lparr>ev_id = nid, ev_submission_id = sid,
            ev_faculty_id = uid, ev_marks = Some m, ev_feedback = Some (trim fb)\<rparr> = Inr d1"
      and e: "d' = ignore_error d1 (update_submissions d1 uid (\<lambda>r. es_id r = sid) ?p)"
      by (auto simp: submitEvaluation_def split: sum.splits)
    from insert_evaluation_InrD(1) [OF i] have "profiles d1 = profiles d"
      and "experiment_submissions d1 = experiment_submissions d" by simp_all
    with e show ?thesis by blast
  next
    case (Some ex)
    with assms(2) mk obtain d1 where
      i: "update_evaluations d uid (\<lambda>r. ev_id r = ev_id ex) m (trim fb) = Inr d1"
      and e: "d' = ignore_error d1 (update_submissions d1 uid (\<lambda>r. es_id r = sid) ?p)"
      by (auto simp: submitEvaluation_def split: sum.splits)
    from update_evaluations_InrD [OF i] have "profiles d1 = profiles d"
      and "experiment_submissions d1 = experiment_submissions d" by auto
    with e show ?thesis by blast
  qed
  then obtain d1 where p: "profiles d1 = profiles d"
    and s: "experiment_submissions d1 = experiment_submissions d"
    and d': "d' = ignore_error d1 (update_submissions d1 uid (\<lambda>r. es_id r = sid) ?p)"
    by blast
  from p assms(1) have "\<not> is_admin d1 uid" by (simp add: is_admin_def)
  from update_submissions_others_after [OF this] s d' show ?thesis by simp
qed

lemma exec_delete_others:
  assumes "\<not> is_admin d uid"
  shows "experiment_submissions (exec_delete d uid (DeleteFrom t wh)) = experiment_submissions d"
  using assms
  by (cases t)
    (simp_all add: deletable_def Authorize_current subjects_delete_admin_def
      experiments_delete_def delete_profiles_where_def delete_subjects_where_def
      delete_experiments_where_def delete_student_subjects_where_def
      delete_faculty_subjects_where_def delete_submissions_where_def
      delete_evaluations_where_def)

lemma submitCode_unstorable:
  assumes "\<not> (storable code \<and> storable lang)"
  shows "submitCode d uid nid eid code lang = Inl UnstorableText"
  using assms
  by (cases "maybeSingle (filter (\<lambda>r. es_student_id r = uid \<and> es_experiment_id r = eid)
                (rls_experiment_submissions d uid))")
    (auto simp: submitCode_def update_submissions_def insert_submission_def storable_opt_def)

lemma resubmission:
  assumes "primary_keys d" and "unique_keys d"
    and "es \<in> set (experiment_submissions d)" and "es_student_id es = uid"
    and "storable code" and "storable lang"
  shows "submitCode d uid nid (es_experiment_id es) code lang =
     Inr (d\<lparr>experiment_submissions :=
            map (\<lambda>r. if es_id r = es_id es
                     then r\<lparr>es_code := Some code, es_language := Some lang,
                            es_status := ''submitted''\<rparr>
                     else r) (experiment_submissions d)\<rparr>)"
proof -
  let ?key = "\<lambda>r. (es_experiment_id r, es_student_id r)"
  let ?p = "\<lparr>set_code = Some code, set_language = Some lang, set_status = Some ''submitted''\<rparr>"
  from assms(2) have "distinct (map ?key (experiment_submissions d))"
    by (simp add: unique_keys_def)
  from filter_distinct_key [OF this assms(3)] assms(4)
  have "filter (\<lambda>r. es_student_id r = uid \<and> es_experiment_id r = es_experiment_id es)
          (experiment_submissions d) = [es]"
    by (simp add: conj_commute)
  moreover have "filter (\<lambda>r. es_student_id r = uid \<and> es_experiment_id r = es_experiment_id es)
       (rls_experiment_submissions d uid) =
     filter (\<lambda>r. es_student_id r = uid \<and> es_experiment_id r = es_experiment_id es)
       (experiment_submissions d)"
    unfolding rls_experiment_submissions_def
    by (simp add: submissions_select_plain) (metis (mono_tags, lifting))
  ultimately have q: "maybeSingle
       (filter (\<lambda>r. es_student_id r = uid \<and> es_experiment_id r = es_experiment_id es)
          (rls_experiment_submissions d uid)) = Some es"
    by simp
  from assms(1) have pk: "distinct (map es_id (experiment_submissions d))"
    by (simp add: primary_keys_def)
  have own: "r = es" if "r \<in> set (experiment_submissions d)" and "es_id r = es_id es" for r
    using pk that assms(3) by (meson distinct_map inj_onD)
  let ?hit = "\<lambda>r. es_id r = es_id es \<and> submissions_select d uid r \<and> submissions_update d uid r"
  have hit: "?hit r = (es_id r = es_id es)" if "r \<in> set (experiment_submissions d)" for r
    using own [OF that] assms(4) by (auto simp: submissions_select_plain submissions_update_def)
  have new: "submissions_update d uid (apply_patch ?p r) \<and>
             submissions_select d uid (apply_patch ?p r) \<and>
             status_check (es_status (apply_patch ?p r))"
    if "r \<in> set (experiment_submissions d)" and "?hit r" for r
    using own [OF that(1)] that(2) assms(4)
    by (simp add: submissions_select_plain submissions_update_def apply_patch_def
        status_check_def)
  have "update_submissions d uid (\<lambda>r. es_id r = es_id es) ?p =
     Inr (d\<lparr>experiment_submissions :=
            map (\<lambda>r. if ?hit r then apply_patch ?p r else r) (experiment_submissions d)\<rparr>)"
    unfolding update_submissions_def Let_def Authorize_submission
    using new assms(5,6) by (auto simp: storable_opt_def storable_def)
  moreover have "map (\<lambda>r. if ?hit r then apply_patch ?p r else r) (experiment_submissions d) =
      map (\<lambda>r. if es_id r = es_id es then apply_patch ?p r else r) (experiment_submissions d)"
    by (rule map_cong) (simp_all add: hit)
  ultimately have "update_submissions d uid (\<lambda>r. es_id r = es_id es) ?p =
     Inr (d\<lparr>experiment_submissions :=
            map (\<lambda>r. if es_id r = es_id es then apply_patch ?p r else r)
              (experiment_submissions d)\<rparr>)"
    by simp
  with q show ?thesis by (simp add: submitCode_def apply_patch_def)
qed

lemma lab_graded:
  "submitEvaluation lab ''adm'' ''ev1'' ''sub1'' (Some 85) ''Good'' = Inr graded"
  by (simp add: submitEvaluation_def trim_simps rls_evaluations_def
      insert_evaluation_def update_submissions_def ignore_error_def marks_check_def
      status_check_def apply_patch_def policy_plain graded_def lab_def)

text \<open>
  C2, as stated: no operation of a caller who is not an administrator moves an evaluated
  submission back to \<open>submitted\<close>. In the graded department the student \<open>stu1\<close>, who
  is no administrator, resubmits, and the status of the evaluated submission is
  \<open>submitted\<close> again.
\<close>

theorem resubmission_counterexample:
  "\<not> is_admin graded ''stu1'' \<and>
   map es_status (experiment_submissions graded) = [''evaluated''] \<and>
   map es_status (experiment_submissions (state_after graded
      (submitCode graded ''stu1'' ''sub2'' ''exp1'' ''print(2)'' ''python''))) = [''submitted'']"
  by (simp add: submitCode_def rls_experiment_submissions_def update_submissions_def
      state_after_def apply_patch_def status_check_def trim_simps policy_plain graded_def
      lab_def)

text \<open>
  C2, amended: the status of a submission is out of reach of every caller who is neither
  an administrator nor the submission's student: the update, the delete, \<^verbatim>\<open>submitCode\<close>
  and \<^verbatim>\<open>submitEvaluation\<close> of such a caller leave the submissions of other students as
  they were. The student's own resubmission, in a database whose keys hold and with a
  code and a language that can be stored, succeeds and writes the code, the language and
  the status \<open>submitted\<close> into the submission, whatever its status was. With a code or
  a language that cannot be stored \<^verbatim>\<open>submitCode\<close> fails and writes nothing.
\<close>

theorem submission_status_writers:
  "(\<not> is_admin d uid \<longrightarrow>
      (\<forall>d'. update_submissions d uid wh p = Inr d' \<or>
            submitCode d uid nid eid code lang = Inr d' \<or>
            submitEvaluation d uid nid sid mk fb = Inr d' \<or>
            d' = exec_delete d uid (DeleteFrom t whr) \<longrightarrow>
         filter (\<lambda>r. es_student_id r \<noteq> uid) (experiment_submissions d') =
         filter (\<lambda>r. es_student_id r \<noteq> uid) (experiment_submissions d))) \<and>
   (primary_keys d \<and> unique_keys d \<and> es \<in> set (experiment_submissions d) \<and>
    es_student_id es = uid \<and> storable code \<and> storable lang \<longrightarrow>
      submitCode d uid nid (es_experiment_id es) code lang =
        Inr (d\<lparr>experiment_submissions :=
               map (\<lambda>r. if es_id r = es_id es
                        then r\<lparr>es_code := Some code, es_language := Some lang,
                               es_status := ''submitted''\<rparr>
                        else r) (experiment_submissions d)\<rparr>)) \<and>
   (\<not> (storable code \<and> storable lang) \<longrightarrow>
      submitCode d uid nid eid code lang = Inl UnstorableText)"
proof (intro conjI impI allI)
  fix d'
  assume n: "\<not> is_admin d uid"
    and "update_submissions d uid wh p = Inr d' \<or>
            submitCode d uid nid eid code lang = Inr d' \<or>
            submitEvaluation d uid nid sid mk fb = Inr d' \<or>
            d' = exec_delete d uid (DeleteFrom t whr)"
  then show "filter (\<lambda>r. es_student_id r \<noteq> uid) (experiment_submissions d') =
         filter (\<lambda>r. es_student_id r \<noteq> uid) (experiment_submissions d)"
    using update_submissions_others [OF n] submitCode_others [OF n]
      submitEvaluation_others [OF n] exec_delete_others [OF n]
    by (elim disjE) simp_all
next
  assume "\<not> (storable code \<and> storable lang)"
  then show "submitCode d uid nid eid code lang = Inl UnstorableText"
    by (rule submitCode_unstorable)
next
  assume "primary_keys d \<and> unique_keys d \<and> es \<in> set (experiment_submissions d) \<and>
    es_student_id es = uid \<and> storable code \<and> storable lang"
  then show "submitCode d uid nid (es_experiment_id es) code lang =
        Inr (d\<lparr>experiment_submissions :=
               map (\<lambda>r. if es_id r = es_id es
                        then r\<lparr>es_code := Some code, es_language := Some lang,
                               es_status := ''submitted''\<rparr>
                        else r) (experiment_submissions d)\<rparr>)"
    using resubmission by blast
qed

lemma graded_keys: "primary_keys graded \<and> unique_keys graded"
  by (simp add: primary_keys_def unique_keys_def graded_def lab_def)

theorem submission_status_writers_witness:
  "\<not> is_admin lab ''fac1'' \<and>
   submitEvaluation lab ''fac1'' ''ev1'' ''sub1'' (Some 85) ''Good'' = Inr marked \<and>
   filter (\<lambda>r. es_student_id r \<noteq> ''fac1'') (experiment_submissions marked) =
     filter (\<lambda>r. es_student_id r \<noteq> ''fac1'') (experiment_submissions lab) \<and>
   primary_keys graded \<and> unique_keys graded \<and>
   submitCode graded ''stu1'' ''sub2'' ''exp1'' ''print(2)'' ''python'' =
     Inr (graded\<lparr>experiment_submissions :=
            [\<lparr>es_id = ''sub1'', es_experiment_id = ''exp1'', es_student_id = ''stu1'',
              es_code = Some ''print(2)'', es_language = Some ''python'',
              es_status = ''submitted''\<rparr>]\<rparr>) \<and>
   \<not> storable [CHR 0x00] \<and>
   submitCode graded ''stu1'' ''sub2'' ''exp1'' [CHR 0x00] ''python'' = Inl UnstorableText"
proof -
  have n: "\<not> is_admin lab ''fac1''" by (simp add: is_admin_def lab_def)
  have 1: "filter (\<lambda>r. es_student_id r \<noteq> ''fac1'') (experiment_submissions marked) =
     filter (\<lambda>r. es_student_id r \<noteq> ''fac1'') (experiment_submissions lab)"
    using submission_status_writers [where d = lab and uid = "''fac1''" and nid = "''ev1''"
        and sid = "''sub1''" and mk = "Some 85" and fb = "''Good''"] n lab_marked
    by blast
  have 2: "submitCode graded ''stu1'' ''sub2'' ''exp1'' ''print(2)'' ''python'' =
     Inr (graded\<lparr>experiment_submissions :=
            [\<lparr>es_id = ''sub1'', es_experiment_id = ''exp1'', es_student_id = ''stu1'',
              es_code = Some ''print(2)'', es_language = Some ''python'',
              es_status = ''submitted''\<rparr>]\<rparr>)"
    using submission_status_writers [where d = graded and uid = "''stu1''" and nid = "''sub2''"
        and code = "''print(2)''" and lang = "''python''"
        and es = "\<lparr>es_id = ''sub1'', es_experiment_id = ''exp1'', es_student_id = ''stu1'',
             es_code = Some ''print(1)'', es_language = Some ''python'',
             es_status = ''evaluated''\<rparr>"] graded_keys
    by (simp add: storable_def graded_def lab_def)
  have z: "\<not> storable [CHR 0x00]" by (simp add: storable_def)
  have 3: "submitCode graded ''stu1'' ''sub2'' ''exp1'' [CHR 0x00] ''python'' =
      Inl UnstorableText"
    using submission_status_writers [where d = graded and uid = "''stu1''" and nid = "''sub2''"
        and eid = "''exp1''" and code = "[CHR 0x00]" and lang = "''python''"] z
    by blast
  from n lab_marked 1 2 z 3 graded_keys show ?thesis by simp
qed

section \<open>What the provisioning trigger inserts\<close>

lemma foreign_keys_profile_ids:
  assumes "foreign_keys d" and "k \<notin> set (users d)"
  shows "k \<notin> set (map p_id (profiles d))"
  using assms by (auto simp: foreign_keys_def)

text \<open>
  C7, as stated: every identity-creation event yields one profile, with the department of
  the event's metadata when present. An event whose metadata names the department
  \<open>ECE\<close>, or the role \<open>teacher\<close>, makes the trigger fail: no profile is inserted, and
  the identity is not created.
\<close>

theorem provisioning_counterexample:
  "on_auth_user_created lab
     \<lparr>au_id = ''new'', raw_user_meta_data = map_of [(''department'', ''ECE'')]\<rparr> = Inl CheckViolation \<and>
   on_auth_user_created lab
     \<lparr>au_id = ''new'', raw_user_meta_data = map_of [(''role'', ''teacher'')]\<rparr> =
     Inl InvalidTextRepresentation"
  by (simp add: on_auth_user_created_def handle_new_user_def insert_profile_def
      app_role_of_text_def department_check_def COALESCE_def lab_def)

text \<open>
  C7, amended: for an event with a new identifier whose role, when present, is one of the
  three labels of \<open>app_role\<close> and whose department, when present, is one of \<open>CSE\<close>,
  \<open>IT\<close>, \<open>AIDS\<close>, the trigger inserts exactly one profile, with that identifier, with
  the requested role or \<open>student\<close>, and with the given department or \<open>CSE\<close>. For any
  other role or department the trigger fails and nothing is created.
\<close>

theorem provisioning:
  assumes "foreign_keys d" and "au_id NEW \<notin> set (users d)"
  shows "((case raw_user_meta_data NEW ''role'' of
             None \<Rightarrow> role = Student
           | Some t \<Rightarrow> app_role_of_text t = Some role) \<and>
          department_check (raw_user_meta_data NEW ''department'') \<longrightarrow>
            (\<exists>d' row. on_auth_user_created d NEW = Inr d' \<and>
               users d' = users d @ [au_id NEW] \<and>
               profiles d' = profiles d @ [row] \<and>
               p_id row = au_id NEW \<and> p_role row = role \<and>
               p_department row =
                 Some (case raw_user_meta_data NEW ''department'' of
                         None \<Rightarrow> ''CSE'' | Some x \<Rightarrow> x))) \<and>
         ((\<exists>t. raw_user_meta_data NEW ''role'' = Some t \<and> app_role_of_text t = None) \<or>
          \<not> department_check (raw_user_meta_data NEW ''department'') \<longrightarrow>
            (\<exists>e. on_auth_user_created d NEW = Inl e))"
proof (intro conjI impI)
  assume a: "(case raw_user_meta_data NEW ''role'' of
             None \<Rightarrow> role = Student
           | Some t \<Rightarrow> app_role_of_text t = Some role) \<and>
          department_check (raw_user_meta_data NEW ''department'')"
  let ?dep = "case raw_user_meta_data NEW ''department'' of None \<Rightarrow> ''CSE'' | Some x \<Rightarrow> x"
  let ?row = "\<lparr>p_id = au_id NEW,
             p_full_name = Some (COALESCE (raw_user_meta_data NEW ''full_name'') []),
             p_role = role, p_department = Some ?dep\<rparr>"
  let ?d = "d\<lparr>users := users d @ [au_id NEW]\<rparr>"
  from a have dep: "department_check (Some ?dep)"
    by (cases "raw_user_meta_data NEW ''department''") (simp_all add: department_check_def)
  from foreign_keys_profile_ids [OF assms]
  have fresh: "au_id NEW \<notin> set (map p_id (profiles ?d))" by simp
  have ins: "insert_profile ?d ?row = Inr (?d\<lparr>profiles := profiles ?d @ [?row]\<rparr>)"
    using dep fresh by (simp add: insert_profile_def)
  have "handle_new_user ?d NEW = insert_profile ?d ?row"
    using a
    by (cases "raw_user_meta_data NEW ''role''")
      (auto simp: handle_new_user_def COALESCE_def split: option.splits)
  with ins assms(2)
  have "on_auth_user_created d NEW = Inr (?d\<lparr>profiles := profiles ?d @ [?row]\<rparr>)"
    by (simp add: on_auth_user_created_def)
  then show "\<exists>d' row. on_auth_user_created d NEW = Inr d' \<and>
               users d' = users d @ [au_id NEW] \<and>
               profiles d' = profiles d @ [row] \<and>
               p_id row = au_id NEW \<and> p_role row = role \<and>
               p_department row = Some ?dep"
    by (intro exI [of _ "?d\<lparr>profiles := profiles ?d @ [?row]\<rparr>"] exI [of _ ?row]) simp
next
  assume "(\<exists>t. raw_user_meta_data NEW ''role'' = Some t \<and> app_role_of_text t = None) \<or>
          \<not> department_check (raw_user_meta_data NEW ''department'')"
  then show "\<exists>e. on_auth_user_created d NEW = Inl e"
  proof
    assume "\<exists>t. raw_user_meta_data NEW ''role'' = Some t \<and> app_role_of_text t = None"
    then show ?thesis
      by (auto simp: on_auth_user_created_def handle_new_user_def)
  next
    assume "\<not> department_check (raw_user_meta_data NEW ''department'')"
    then have "\<not> department_check
        (Some (COALESCE (raw_user_meta_data NEW ''department'') ''CSE''))"
      by (cases "raw_user_meta_data NEW ''department''")
        (simp_all add: department_check_def COALESCE_def)
    then show ?thesis
      by (auto simp: on_auth_user_created_def handle_new_user_def insert_profile_def
          split: option.splits sum.splits)
  qed
qed

theorem provisioning_witness:
  "foreign_keys lab \<and> ''new'' \<notin> set (users lab) \<and>
   (\<exists>d' row. on_auth_user_created lab
        \<lparr>au_id = ''new'', raw_user_meta_data = map_of [(''role'', ''faculty'')]\<rparr> = Inr d' \<and>
      profiles d' = profiles lab @ [row] \<and> p_id row = ''new'' \<and> p_role row = Faculty \<and>
      p_department row = Some ''CSE'') \<and>
   (\<exists>d' row. on_auth_user_created lab
        \<lparr>au_id = ''new'', raw_user_meta_data = map_of [(''department'', ''IT'')]\<rparr> = Inr d' \<and>
      profiles d' = profiles lab @ [row] \<and> p_id row = ''new'' \<and> p_role row = Student \<and>
      p_department row = Some ''IT'') \<and>
   (\<exists>e. on_auth_user_created lab
        \<lparr>au_id = ''new'', raw_user_meta_data = map_of [(''role'', ''Admin'')]\<rparr> = Inl e)"
proof -
  have u: "''new'' \<notin> set (users lab)" by (simp add: lab_def)
  have u1: "au_id \<lparr>au_id = ''new'', raw_user_meta_data = map_of [(''role'', ''faculty'')]\<rparr>
              \<notin> set (users lab)"
    and u2: "au_id \<lparr>au_id = ''new'', raw_user_meta_data = map_of [(''department'', ''IT'')]\<rparr>
              \<notin> set (users lab)"
    and u3: "au_id \<lparr>au_id = ''new'', raw_user_meta_data = map_of [(''role'', ''Admin'')]\<rparr>
              \<notin> set (users lab)"
    using u by simp_all
  show ?thesis
    using lab_foreign_keys u
      provisioning [OF lab_foreign_keys u1, of Faculty]
      provisioning [OF lab_foreign_keys u2, of Student]
      provisioning [OF lab_foreign_keys u3, of Student]
    by (simp add: app_role_of_text_def department_check_def, blast)
qed

section \<open>What the code-execution function forwards\<close>

lemma serve_missing_field:
  assumes "rq_method req \<noteq> ''OPTIONS''" and "rq_body req = Some (code, lang, stdin)"
    and "\<not> truthy code \<or> \<not> truthy lang"
  shows "serve req = Status400 ''Code and language are required''"
  using assms by (auto simp: serve_def)

lemma serve_not_a_property:
  assumes "rq_method req \<noteq> ''OPTIONS''" and "rq_body req = Some (code, JStr l, stdin)"
    and "truthy code" and "l \<noteq> []"
    and "toLowerCase l \<notin> set (map fst LANGUAGE_MAP)"
    and "toLowerCase l \<notin> set Object_prototype"
  shows "serve req = Status400 (''Unsupported language: '' @ l)"
proof -
  from assms(5) have "map_of LANGUAGE_MAP (toLowerCase l) = None"
    by (simp add: map_of_eq_None_iff)
  with assms(6) have "get_property (toLowerCase l) = Undefined"
    by (simp add: get_property_def)
  with assms(1-4) show ?thesis by (simp add: serve_def)
qed

lemma serve_forwarded_supported:
  assumes "rq_method req \<noteq> ''OPTIONS''" and "rq_body req = Some (code, JStr l, stdin)"
    and "truthy code" and "l \<noteq> []" and "map_of LANGUAGE_MAP (toLowerCase l) = Some c"
  shows "\<exists>r. serve req = Forwarded r \<and> pr_language r = Some (language c) \<and>
           pr_version r = Some (version c)"
  using assms by (simp add: serve_def get_property_def)

text \<open>
  C8: a language outside the supported set is answered with 400 and not forwarded. The
  request with the code \<open>x\<close> and the language \<open>constructor\<close>, which is no key of
  \<open>LANGUAGE_MAP\<close>, is forwarded to the sandbox, without a language and a version: the
  property read finds \<^verbatim>\<open>Object.prototype.constructor\<close>.
\<close>

theorem serve_constructor:
  "''constructor'' \<notin> set (map fst LANGUAGE_MAP) \<and>
   serve \<lparr>rq_method = ''POST'',
          rq_body = Some (JStr ''x'', JStr ''constructor'', JUndefined)\<rparr> =
     Forwarded \<lparr>pr_language = None, pr_version = None, pr_file_name = ''main'',
                pr_file_content = JStr ''x'', pr_stdin = JStr [],
                pr_run_timeout = 10000, pr_compile_timeout = 10000\<rparr>"
  by (simp add: serve_def get_property_def LANGUAGE_MAP_def Object_prototype_def
      toLowerCase_def lower_char_def)

theorem serve_constructor_witness:
  "truthy (JStr ''x'') \<and> truthy (JStr ''constructor'') \<and>
   get_property (toLowerCase ''constructor'') = Inherited \<and>
   (case serve \<lparr>rq_method = ''POST'',
                rq_body = Some (JStr ''x'', JStr ''constructor'', JUndefined)\<rparr> of
      Forwarded r \<Rightarrow> pr_language r = None \<and> pr_version r = None
    | _ \<Rightarrow> False)"
  using serve_constructor
  by (simp add: get_property_def LANGUAGE_MAP_def Object_prototype_def toLowerCase_def
      lower_char_def)

section \<open>Cascading deletes\<close>

lemma delete_evaluations_where_fk:
  assumes "foreign_keys d"
  shows "foreign_keys (delete_evaluations_where P d)"
  using assms by (simp add: foreign_keys_def delete_evaluations_where_def)

lemma delete_student_subjects_where_fk:
  assumes "foreign_keys d"
  shows "foreign_keys (delete_student_subjects_where P d)"
  using assms by (simp add: foreign_keys_def delete_student_subjects_where_def)

lemma delete_faculty_subjects_where_fk:
  assumes "foreign_keys d"
  shows "foreign_keys (delete_faculty_subjects_where P d)"
  using assms by (simp add: foreign_keys_def delete_faculty_subjects_where_def)

lemma delete_profiles_where_fk:
  assumes "foreign_keys d"
  shows "foreign_keys (delete_profiles_where P d)"
  using assms by (simp add: foreign_keys_def delete_profiles_where_def)

lemma kept_key:
  assumes "k \<in> set (map f xs)" and "k \<notin> set (map f (filter P xs))"
  shows "k \<in> set (map f (filter (\<lambda>r. \<not> P r) xs))"
  using assms by auto

lemma delete_submissions_where_tables:
  "experiment_submissions (delete_submissions_where P d) =
     filter (\<lambda>r. \<not> P r) (experiment_submissions d)"
  "evaluations (delete_submissions_where P d) =
     filter (\<lambda>r. ev_submission_id r \<notin> set (map es_id (filter P (experiment_submissions d))))
       (evaluations d)"
  "users (delete_submissions_where P d) = users d"
  "profiles (delete_submissions_where P d) = profiles d"
  "subjects (delete_submissions_where P d) = subjects d"
  "experiments (delete_submissions_where P d) = experiments d"
  "student_subjects (delete_submissions_where P d) = student_subjects d"
  "faculty_subjects (delete_submissions_where P d) = faculty_subjects d"
  by (simp_all add: delete_submissions_where_def delete_evaluations_where_def Let_def)

lemma delete_experiments_where_tables:
  "experiments (delete_experiments_where P d) = filter (\<lambda>r. \<not> P r) (experiments d)"
  "experiment_submissions (delete_experiments_where P d) =
     filter (\<lambda>r. es_experiment_id r \<notin> set (map e_id (filter P (experiments d))))
       (experiment_submissions d)"
  "evaluations (delete_experiments_where P d) =
     filter (\<lambda>r. ev_submission_id r \<notin> set (map es_id
                (filter (\<lambda>r. es_experiment_id r \<in> set (map e_id (filter P (experiments d))))
                   (experiment_submissions d))))
       (evaluations d)"
  "users (delete_experiments_where P d) = users d"
  "profiles (delete_experiments_where P d) = profiles d"
  "subjects (delete_experiments_where P d) = subjects d"
  "student_subjects (delete_experiments_where P d) = student_subjects d"
  "faculty_subjects (delete_experiments_where P d) = faculty_subjects d"
  by (simp_all add: delete_experiments_where_def delete_submissions_where_tables Let_def)

lemma delete_subjects_where_tables:
  "subjects (delete_subjects_where P d) = filter (\<lambda>r. \<not> P r) (subjects d)"
  "experiments (delete_subjects_where P d) =
     filter (\<lambda>r. e_subject_id r \<notin> set (map s_id (filter P (subjects d)))) (experiments d)"
  "experiment_submissions (delete_subjects_where P d) =
     filter (\<lambda>r. es_experiment_id r \<notin> set (map e_id
                (filter (\<lambda>r. e_subject_id r \<in> set (map s_id (filter P (subjects d))))
                   (experiments d))))
       (experiment_submissions d)"
  "evaluations (delete_subjects_where P d) =
     filter (\<lambda>r. ev_submission_id r \<notin> set (map es_id
                (filter (\<lambda>r. es_experiment_id r \<in> set (map e_id
                     (filter (\<lambda>r. e_subject_id r \<in> set (map s_id (filter P (subjects d))))
                        (experiments d))))
                   (experiment_submissions d))))
       (evaluations d)"
  "student_subjects (delete_subjects_where P d) =
     filter (\<lambda>r. ss_subject_id r \<notin> set (map s_id (filter P (subjects d)))) (student_subjects d)"
  "faculty_subjects (delete_subjects_where P d) =
     filter (\<lambda>r. fs_subject_id r \<notin> set (map s_id (filter P (subjects d)))) (faculty_subjects d)"
  "users (delete_subjects_where P d) = users d"
  "profiles (delete_subjects_where P d) = profiles d"
  by (simp_all add: delete_subjects_where_def delete_experiments_where_tables
      delete_student_subjects_where_def delete_faculty_subjects_where_def Let_def)

lemma delete_submissions_where_fk:
  assumes "foreign_keys d"
  shows "foreign_keys (delete_submissions_where P d)"
proof -
  have ev: "ev_submission_id r \<in> set (map es_id (filter (\<lambda>r. \<not> P r) (experiment_submissions d)))"
    if "r \<in> set (evaluations d)"
      and "ev_submission_id r \<notin> set (map es_id (filter P (experiment_submissions d)))" for r
  proof -
    from assms that(1) have "ev_submission_id r \<in> set (map es_id (experiment_submissions d))"
      by (simp add: foreign_keys_def)
    from kept_key [OF this that(2)] show ?thesis .
  qed
  from assms have rest: "(\<forall>r \<in> set (profiles d). p_id r \<in> set (users d)) \<and>
      (\<forall>r \<in> set (experiments d). e_subject_id r \<in> set (map s_id (subjects d))) \<and>
      (\<forall>r \<in> set (student_subjects d).
         ss_student_id r \<in> set (users d) \<and> ss_subject_id r \<in> set (map s_id (subjects d))) \<and>
      (\<forall>r \<in> set (faculty_subjects d).
         fs_faculty_id r \<in> set (users d) \<and> fs_subject_id r \<in> set (map s_id (subjects d))) \<and>
      (\<forall>r \<in> set (experiment_submissions d).
         es_experiment_id r \<in> set (map e_id (experiments d)) \<and> es_student_id r \<in> set (users d)) \<and>
      (\<forall>r \<in> set (evaluations d). ev_faculty_id r \<in> set (users d))"
    by (simp add: foreign_keys_def)
  show ?thesis
    unfolding foreign_keys_def delete_submissions_where_tables
    using rest ev by simp
qed

lemma foreign_keys_parts:
  assumes "foreign_keys d"
  shows "\<And>r. r \<in> set (profiles d) \<Longrightarrow> p_id r \<in> set (users d)"
    and "\<And>r. r \<in> set (experiments d) \<Longrightarrow> e_subject_id r \<in> set (map s_id (subjects d))"
    and "\<And>r. r \<in> set (student_subjects d) \<Longrightarrow> ss_student_id r \<in> set (users d)"
    and "\<And>r. r \<in> set (student_subjects d) \<Longrightarrow> ss_subject_id r \<in> set (map s_id (subjects d))"
    and "\<And>r. r \<in> set (faculty_subjects d) \<Longrightarrow> fs_faculty_id r \<in> set (users d)"
    and "\<And>r. r \<in> set (faculty_subjects d) \<Longrightarrow> fs_subject_id r \<in> set (map s_id (subjects d))"
    and "\<And>r. r \<in> set (experiment_submissions d) \<Longrightarrow>
           es_experiment_id r \<in> set (map e_id (experiments d))"
    and "\<And>r. r \<in> set (experiment_submissions d) \<Longrightarrow> es_student_id r \<in> set (users d)"
    and "\<And>r. r \<in> set (evaluations d) \<Longrightarrow>
           ev_submission_id r \<in> set (map es_id (experiment_submissions d))"
    and "\<And>r. r \<in> set (evaluations d) \<Longrightarrow> ev_faculty_id r \<in> set (users d)"
  using assms unfolding foreign_keys_def by blast+

lemma delete_experiments_where_fk:
  assumes "foreign_keys d"
  shows "foreign_keys (delete_experiments_where P d)"
proof -
  note fk = foreign_keys_parts [OF assms]
  let ?ge = "set (map e_id (filter P (experiments d)))"
  let ?Q = "\<lambda>r. es_experiment_id r \<in> ?ge"
  have es: "es_experiment_id r \<in> set (map e_id (filter (\<lambda>r. \<not> P r) (experiments d)))"
    if "r \<in> set (experiment_submissions d)" and "es_experiment_id r \<notin> ?ge" for r
    using kept_key [OF fk(7) [OF that(1)] that(2)] .
  have ev: "ev_submission_id r \<in> set (map es_id
        (filter (\<lambda>r. es_experiment_id r \<notin> ?ge) (experiment_submissions d)))"
    if "r \<in> set (evaluations d)"
      and "ev_submission_id r \<notin> set (map es_id (filter ?Q (experiment_submissions d)))" for r
    using kept_key [OF fk(9) [OF that(1)] that(2)] .
  show ?thesis
    unfolding foreign_keys_def delete_experiments_where_tables
    using fk es ev by simp
qed

lemma delete_subjects_where_fk:
  assumes "foreign_keys d"
  shows "foreign_keys (delete_subjects_where P d)"
proof -
  note fk = foreign_keys_parts [OF assms]
  let ?gs = "set (map s_id (filter P (subjects d)))"
  let ?E = "\<lambda>r. e_subject_id r \<in> ?gs"
  let ?ge = "set (map e_id (filter ?E (experiments d)))"
  let ?Q = "\<lambda>r. es_experiment_id r \<in> ?ge"
  have e: "e_subject_id r \<in> set (map s_id (filter (\<lambda>r. \<not> P r) (subjects d)))"
    if "r \<in> set (experiments d)" and "e_subject_id r \<notin> ?gs" for r
    using kept_key [OF fk(2) [OF that(1)] that(2)] .
  have ss: "ss_subject_id r \<in> set (map s_id (filter (\<lambda>r. \<not> P r) (subjects d)))"
    if "r \<in> set (student_subjects d)" and "ss_subject_id r \<notin> ?gs" for r
    using kept_key [OF fk(4) [OF that(1)] that(2)] .
  have fs: "fs_subject_id r \<in> set (map s_id (filter (\<lambda>r. \<not> P r) (subjects d)))"
    if "r \<in> set (faculty_subjects d)" and "fs_subject_id r \<notin> ?gs" for r
    using kept_key [OF fk(6) [OF that(1)] that(2)] .
  have es: "es_experiment_id r \<in> set (map e_id
        (filter (\<lambda>r. e_subject_id r \<notin> ?gs) (experiments d)))"
    if "r \<in> set (experiment_submissions d)" and "es_experiment_id r \<notin> ?ge" for r
    using kept_key [OF fk(7) [OF that(1)] that(2)] .
  have ev: "ev_submission_id r \<in> set (map es_id
        (filter (\<lambda>r. es_experiment_id r \<notin> ?ge) (experiment_submissions d)))"
    if "r \<in> set (evaluations d)"
      and "ev_submission_id r \<notin> set (map es_id (filter ?Q (experiment_submissions d)))" for r
    using kept_key [OF fk(9) [OF that(1)] that(2)] .
  show ?thesis
    unfolding foreign_keys_def delete_subjects_where_tables
    using fk e ss fs es ev by simp
qed

lemma delete_users_where_tables:
  "users (delete_users_where P d) = filter (\<lambda>u. \<not> P u) (users d)"
  "profiles (delete_users_where P d) = filter (\<lambda>r. \<not> P (p_id r)) (profiles d)"
  "subjects (delete_users_where P d) = subjects d"
  "experiments (delete_users_where P d) = experiments d"
  "student_subjects (delete_users_where P d) =
     filter (\<lambda>r. \<not> P (ss_student_id r)) (student_subjects d)"
  "faculty_subjects (delete_users_where P d) =
     filter (\<lambda>r. \<not> P (fs_faculty_id r)) (faculty_subjects d)"
  "experiment_submissions (delete_users_where P d) =
     filter (\<lambda>r. \<not> P (es_student_id r)) (experiment_submissions d)"
  "evaluations (delete_users_where P d) =
     filter (\<lambda>r. ev_submission_id r \<notin> set (map es_id
                (filter (\<lambda>r. P (es_student_id r)) (experiment_submissions d))))
       (filter (\<lambda>r. \<not> P (ev_faculty_id r)) (evaluations d))"
  by (simp_all add: delete_users_where_def delete_profiles_where_def
      delete_student_subjects_where_def delete_faculty_subjects_where_def
      delete_submissions_where_tables delete_evaluations_where_def)

lemma delete_users_where_fk:
  assumes "foreign_keys d"
  shows "foreign_keys (delete_users_where P d)"
proof -
  note fk = foreign_keys_parts [OF assms]
  have ev: "ev_submission_id r \<in> set (map es_id
        (filter (\<lambda>r. \<not> P (es_student_id r)) (experiment_submissions d)))"
    if "r \<in> set (evaluations d)"
      and "ev_submission_id r \<notin> set (map es_id
             (filter (\<lambda>r. P (es_student_id r)) (experiment_submissions d)))" for r
    using kept_key [OF fk(9) [OF that(1)] that(2)] .
  show ?thesis
    unfolding foreign_keys_def delete_users_where_tables
    using fk ev by simp
qed

lemma exec_delete_fk:
  assumes "foreign_keys d"
  shows "foreign_keys (exec_delete d uid stmt)"
proof (cases stmt)
  case (DeleteUsers P)
  then show ?thesis using delete_users_where_fk [OF assms] by simp
next
  case (DeleteFrom t wh)
  then show ?thesis
    using assms
    by (cases t)
      (simp_all add: delete_profiles_where_fk delete_subjects_where_fk
        delete_experiments_where_fk delete_student_subjects_where_fk
        delete_faculty_subjects_where_fk delete_submissions_where_fk
        delete_evaluations_where_fk)
qed

lemma handleDelete_admin:
  assumes "is_admin d uid"
  shows "handleDelete d uid sid = delete_subjects_where (\<lambda>s. s_id s = sid) d"
  using assms
  by (simp add: handleDelete_def deletable_def Authorize_subject subjects_select_def
      subjects_delete_admin_def)

lemma gone_subject:
  assumes "sid \<in> set (map s_id (subjects d))"
  shows "set (map s_id (filter (\<lambda>s. s_id s = sid) (subjects d))) = {sid}"
  using assms by auto

lemma delete_subject_tables:
  assumes "sid \<in> set (map s_id (subjects d))"
  shows "subjects (delete_subjects_where (\<lambda>s. s_id s = sid) d) =
           filter (\<lambda>s. s_id s \<noteq> sid) (subjects d)"
    and "experiments (delete_subjects_where (\<lambda>s. s_id s = sid) d) =
           filter (\<lambda>e. e_subject_id e \<noteq> sid) (experiments d)"
    and "experiment_submissions (delete_subjects_where (\<lambda>s. s_id s = sid) d) =
           filter (\<lambda>r. \<not> (\<exists>e \<in> set (experiments d).
                      e_id e = es_experiment_id r \<and> e_subject_id e = sid))
             (experiment_submissions d)"
    and "evaluations (delete_subjects_where (\<lambda>s. s_id s = sid) d) =
           filter (\<lambda>v. \<not> (\<exists>r \<in> set (experiment_submissions d). \<exists>e \<in> set (experiments d).
                      es_id r = ev_submission_id v \<and> e_id e = es_experiment_id r \<and>
                      e_subject_id e = sid))
             (evaluations d)"
    and "student_subjects (delete_subjects_where (\<lambda>s. s_id s = sid) d) =
           filter (\<lambda>r. ss_subject_id r \<noteq> sid) (student_subjects d)"
    and "faculty_subjects (delete_subjects_where (\<lambda>s. s_id s = sid) d) =
           filter (\<lambda>r. fs_subject_id r \<noteq> sid) (faculty_subjects d)"
proof -
  note g = gone_subject [OF assms]
  show "subjects (delete_subjects_where (\<lambda>s. s_id s = sid) d) =
           filter (\<lambda>s. s_id s \<noteq> sid) (subjects d)"
    by (simp add: delete_subjects_where_tables)
  show "experiments (delete_subjects_where (\<lambda>s. s_id s = sid) d) =
           filter (\<lambda>e. e_subject_id e \<noteq> sid) (experiments d)"
    unfolding delete_subjects_where_tables g by simp
  show "student_subjects (delete_subjects_where (\<lambda>s. s_id s = sid) d) =
           filter (\<lambda>r. ss_subject_id r \<noteq> sid) (student_subjects d)"
    unfolding delete_subjects_where_tables g by simp
  show "faculty_subjects (delete_subjects_where (\<lambda>s. s_id s = sid) d) =
           filter (\<lambda>r. fs_subject_id r \<noteq> sid) (faculty_subjects d)"
    unfolding delete_subjects_where_tables g by simp
  show "experiment_submissions (delete_subjects_where (\<lambda>s. s_id s = sid) d) =
           filter (\<lambda>r. \<not> (\<exists>e \<in> set (experiments d).
                      e_id e = es_experiment_id r \<and> e_subject_id e = sid))
             (experiment_submissions d)"
    unfolding delete_subjects_where_tables g
    by (rule filter_cong [OF refl]) (auto simp: image_iff)
  show "evaluations (delete_subjects_where (\<lambda>s. s_id s = sid) d) =
           filter (\<lambda>v. \<not> (\<exists>r \<in> set (experiment_submissions d). \<exists>e \<in> set (experiments d).
                      es_id r = ev_submission_id v \<and> e_id e = es_experiment_id r \<and>
                      e_subject_id e = sid))
             (evaluations d)"
    unfolding delete_subjects_where_tables g
    by (rule filter_cong [OF refl]) (simp add: image_iff, metis)
qed

text \<open>
  C10. Every delete, of the client under the policies or of an identity, takes a database
  whose foreign keys hold to one whose foreign keys hold: no enrollment, assignment,
  submission or evaluation is left with a missing parent. The administrator's delete of an
  existing subject removes the subject, exactly the experiments of the subject, exactly the
  submissions for those experiments, exactly the evaluations of those submissions, and
  exactly the enrollments and assignments that reference the subject.
\<close>

theorem cascade_delete:
  assumes "foreign_keys d"
  shows "foreign_keys (exec_delete d uid stmt) \<and>
    (is_admin d uid \<and> sid \<in> set (map s_id (subjects d)) \<longrightarrow>
       foreign_keys (handleDelete d uid sid) \<and>
       subjects (handleDelete d uid sid) = filter (\<lambda>s. s_id s \<noteq> sid) (subjects d) \<and>
       experiments (handleDelete d uid sid) =
         filter (\<lambda>e. e_subject_id e \<noteq> sid) (experiments d) \<and>
       experiment_submissions (handleDelete d uid sid) =
         filter (\<lambda>r. \<not> (\<exists>e \<in> set (experiments d).
                    e_id e = es_experiment_id r \<and> e_subject_id e = sid))
           (experiment_submissions d) \<and>
       evaluations (handleDelete d uid sid) =
         filter (\<lambda>v. \<not> (\<exists>r \<in> set (experiment_submissions d). \<exists>e \<in> set (experiments d).
                    es_id r = ev_submission_id v \<and> e_id e = es_experiment_id r \<and>
                    e_subject_id e = sid))
           (evaluations d) \<and>
       student_subjects (handleDelete d uid sid) =
         filter (\<lambda>r. ss_subject_id r \<noteq> sid) (student_subjects d) \<and>
       faculty_subjects (handleDelete d uid sid) =
         filter (\<lambda>r. fs_subject_id r \<noteq> sid) (faculty_subjects d))"
proof (intro conjI impI)
  show "foreign_keys (exec_delete d uid stmt)"
    using exec_delete_fk [OF assms] .
next
  assume a: "is_admin d uid \<and> sid \<in> set (map s_id (subjects d))"
  then have h: "handleDelete d uid sid = delete_subjects_where (\<lambda>s. s_id s = sid) d"
    using handleDelete_admin by blast
  from a have s: "sid \<in> set (map s_id (subjects d))" by blast
  show "foreign_keys (handleDelete d uid sid)"
    unfolding h using delete_subjects_where_fk [OF assms] .
  show "subjects (handleDelete d uid sid) = filter (\<lambda>s. s_id s \<noteq> sid) (subjects d)"
    unfolding h using delete_subject_tables(1) [OF s] .
  show "experiments (handleDelete d uid sid) =
         filter (\<lambda>e. e_subject_id e \<noteq> sid) (experiments d)"
    unfolding h using delete_subject_tables(2) [OF s] .
  show "experiment_submissions (handleDelete d uid sid) =
         filter (\<lambda>r. \<not> (\<exists>e \<in> set (experiments d).
                    e_id e = es_experiment_id r \<and> e_subject_id e = sid))
           (experiment_submissions d)"
    unfolding h using delete_subject_tables(3) [OF s] .
  show "evaluations (handleDelete d uid sid) =
         filter (\<lambda>v. \<not> (\<exists>r \<in> set (experiment_submissions d). \<exists>e \<in> set (experiments d).
                    es_id r = ev_submission_id v \<and> e_id e = es_experiment_id r \<and>
                    e_subject_id e = sid))
           (evaluations d)"
    unfolding h using delete_subject_tables(4) [OF s] .
  show "student_subjects (handleDelete d uid sid) =
         filter (\<lambda>r. ss_subject_id r \<noteq> sid) (student_subjects d)"
    unfolding h using delete_subject_tables(5) [OF s] .
  show "faculty_subjects (handleDelete d uid sid) =
         filter (\<lambda>r. fs_subject_id r \<noteq> sid) (faculty_subjects d)"
    unfolding h using delete_subject_tables(6) [OF s] .
qed

lemma graded_foreign_keys: "foreign_keys graded"
  by (simp add: foreign_keys_def graded_def lab_def)

theorem cascade_delete_witness:
  "foreign_keys graded \<and> is_admin graded ''adm'' \<and>
   ''CS101'' \<in> set (map s_id (subjects graded)) \<and>
   foreign_keys (handleDelete graded ''adm'' ''CS101'') \<and>
   map s_id (subjects (handleDelete graded ''adm'' ''CS101'')) = [''CS304''] \<and>
   experiments (handleDelete graded ''adm'' ''CS101'') = [] \<and>
   experiment_submissions (handleDelete graded ''adm'' ''CS101'') = [] \<and>
   evaluations (handleDelete graded ''adm'' ''CS101'') = [] \<and>
   student_subjects (handleDelete graded ''adm'' ''CS101'') = [] \<and>
   map fs_id (faculty_subjects (handleDelete graded ''adm'' ''CS101'')) = [''as2'']"
proof -
  have a: "is_admin graded ''adm''" by (simp add: is_admin_def graded_def lab_def)
  have s: "''CS101'' \<in> set (map s_id (subjects graded))" by (simp add: graded_def lab_def)
  from cascade_delete [OF graded_foreign_keys, of "''adm''" _ "''CS101''"] a s
  have "foreign_keys (handleDelete graded ''adm'' ''CS101'') \<and>
       subjects (handleDelete graded ''adm'' ''CS101'') =
         filter (\<lambda>s. s_id s \<noteq> ''CS101'') (subjects graded) \<and>
       experiments (handleDelete graded ''adm'' ''CS101'') =
         filter (\<lambda>e. e_subject_id e \<noteq> ''CS101'') (experiments graded) \<and>
       experiment_submissions (handleDelete graded ''adm'' ''CS101'') =
         filter (\<lambda>r. \<not> (\<exists>e \<in> set (experiments graded).
                    e_id e = es_experiment_id r \<and> e_subject_id e = ''CS101''))
           (experiment_submissions graded) \<and>
       evaluations (handleDelete graded ''adm'' ''CS101'') =
         filter (\<lambda>v. \<not> (\<exists>r \<in> set (experiment_submissions graded).
                    \<exists>e \<in> set (experiments graded).
                    es_id r = ev_submission_id v \<and> e_id e = es_experiment_id r \<and>
                    e_subject_id e = ''CS101''))
           (evaluations graded) \<and>
       student_subjects (handleDelete graded ''adm'' ''CS101'') =
         filter (\<lambda>r. ss_subject_id r \<noteq> ''CS101'') (student_subjects graded) \<and>
       faculty_subjects (handleDelete graded ''adm'' ''CS101'') =
         filter (\<lambda>r. fs_subject_id r \<noteq> ''CS101'') (faculty_subjects graded)"
    by blast
  then show ?thesis
    using graded_foreign_keys a s by (simp add: graded_def lab_def)
qed

end
